theory Spec2Isabelle
  imports Main
begin

section \<open>Python values, strings and exceptions\<close>

text \<open>
  The two scripts \<^verbatim>\<open>seller.py\<close> (Ozon) and \<^verbatim>\<open>market.py\<close> (Yandex Market) work on
  dictionaries read from a spreadsheet and on lists of strings. A spreadsheet cell is a
  Python value: a string, an integer, or \<^verbatim>\<open>None\<close> when \<^verbatim>\<open>dict.get\<close> finds no such key.
  Floating-point cells are not modelled.

  A Python \<^verbatim>\<open>str\<close> is modelled as a \<^typ>\<open>string\<close> holding its UTF-8 bytes. The code
  only compares strings for equality, cuts them at the ASCII full stop and keeps the ASCII
  digits; no byte of a multi-byte character is an ASCII byte, so all three agree on
  bytes and on code points.
\<close>

datatype pyval = PNone | PStr string | PInt int

datatype exn =
    ReadTimeout | ConnectionError | HTTPError
  | ValueError | TypeError | AttributeError

definition is_digit :: "char \<Rightarrow> bool" where
  "is_digit c = (c \<in> set ''0123456789'')"

definition digit_value :: "char \<Rightarrow> int" where
  "digit_value c = int (of_char c) - 48"

definition digit_of :: "nat \<Rightarrow> char" where
  "digit_of d = ''0123456789'' ! d"

function str_of_nat :: "nat \<Rightarrow> string" where
  "str_of_nat n =
     (if n < 10 then [digit_of n] else str_of_nat (n div 10) @ [digit_of (n mod 10)])"
  by pat_completeness auto
termination
  by (relation "measure (\<lambda>n. n)") auto

declare str_of_nat.simps [simp del]

text \<open>\<^verbatim>\<open>str(x)\<close>: a string is itself, an integer its decimal numeral.\<close>

fun py_str :: "pyval \<Rightarrow> string" where
  "py_str PNone = ''None''"
| "py_str (PStr s) = s"
| "py_str (PInt i) = (if i < 0 then CHR ''-'' # str_of_nat (nat (- i)) else str_of_nat (nat i))"

text \<open>
  \<^verbatim>\<open>int(x)\<close>. On a string: surrounding white space is dropped, one sign is allowed, and
  the rest must be decimal digits, where single underscores may stand between two digits;
  anything else raises \<^verbatim>\<open>ValueError\<close>. Only ASCII white space and digits are
  recognised here (Python also accepts the other Unicode decimal digits and spaces), and
  the interpreter's limit on the number of digits is not modelled.
\<close>

definition is_space :: "char \<Rightarrow> bool" where
  "is_space c = ((of_char c :: nat) \<in> {9, 10, 11, 12, 13, 28, 29, 30, 31, 32})"

definition strip :: "string \<Rightarrow> string" where
  "strip s = rev (dropWhile is_space (rev (dropWhile is_space s)))"

fun well_grouped :: "string \<Rightarrow> bool" where
  "well_grouped [] = False"
| "well_grouped [c] = is_digit c"
| "well_grouped (c # d # cs) =
     (is_digit c \<and> (if d = CHR ''_'' then well_grouped cs else well_grouped (d # cs)))"

definition dec_value :: "string \<Rightarrow> int" where
  "dec_value ds = foldl (\<lambda>a c. 10 * a + digit_value c) 0 ds"

definition int_of_digits :: "string \<Rightarrow> exn + int" where
  "int_of_digits body =
     (if well_grouped body then Inr (dec_value (filter is_digit body)) else Inl ValueError)"

definition py_int_str :: "string \<Rightarrow> exn + int" where
  "py_int_str s =
     (case strip s of
        c # body \<Rightarrow>
          if c = CHR ''-'' then map_sum id uminus (int_of_digits body)
          else if c = CHR ''+'' then int_of_digits body
          else int_of_digits (c # body)
      | [] \<Rightarrow> Inl ValueError)"

fun py_int :: "pyval \<Rightarrow> exn + int" where
  "py_int PNone = Inl TypeError"
| "py_int (PStr s) = py_int_str s"
| "py_int (PInt i) = Inr i"

section \<open>The supplier's records\<close>

text \<open>
  \<^verbatim>\<open>download_stock\<close> returns one dictionary per spreadsheet row. The code reads three
  keys of it, written in Cyrillic in the source; the fields below carry their
  transliterations: \<open>Kod\<close> (the code), \<open>Kolichestvo\<close> (the quantity) and \<open>Tsena\<close>
  (the price).
\<close>

record watch =
  Kod :: pyval
  Kolichestvo :: pyval
  Tsena :: pyval

section \<open>price_conversion and divide (seller.py)\<close>

text \<open>
  \<^verbatim>\<open>re.sub("[^0-9]", "", price.split(".")[0])\<close>: the part of the string before its first
  full stop, without every character that is not an ASCII digit. \<^verbatim>\<open>split\<close> is a method
  of strings; on any other value the call raises \<^verbatim>\<open>AttributeError\<close>.
\<close>

definition split_dot_first :: "string \<Rightarrow> string" where
  "split_dot_first s = takeWhile (\<lambda>c. c \<noteq> CHR ''.'') s"

definition re_sub_non_digits :: "string \<Rightarrow> string" where
  "re_sub_non_digits s = filter is_digit s"

fun price_conversion :: "pyval \<Rightarrow> exn + string" where
  "price_conversion (PStr s) = Inr (re_sub_non_digits (split_dot_first s))"
| "price_conversion _ = Inl AttributeError"

text \<open>
  \<^verbatim>\<open>divide\<close> is a generator over \<^verbatim>\<open>range(0, len(lst), n)\<close> yielding \<^verbatim>\<open>lst[i : i + n]\<close>;
  every caller turns it into a list at once. \<^verbatim>\<open>range\<close> raises \<^verbatim>\<open>ValueError\<close> for
  a step of 0 and is empty for a negative step.
\<close>

function divide_from :: "'a list \<Rightarrow> nat \<Rightarrow> nat \<Rightarrow> 'a list list" where
  "divide_from lst n i =
     (if n = 0 \<or> length lst \<le> i then []
      else take n (drop i lst) # divide_from lst n (i + n))"
  by pat_completeness auto
termination
  by (relation "measure (\<lambda>(lst, n, i). length lst - i)") auto

declare divide_from.simps [simp del]

definition divide :: "'a list \<Rightarrow> int \<Rightarrow> exn + 'a list list" where
  "divide lst n =
     (if n = 0 then Inl ValueError
      else if n < 0 then Inr []
      else Inr (divide_from lst (nat n) 0))"

section \<open>create_stocks (seller.py and market.py)\<close>

text \<open>
  Both scripts translate the quantity of a matched record in the same way: the strings
  \<open>>10\<close> and \<open>1\<close> of \<^verbatim>\<open>str(watch.get(...))\<close> stand for 100 and 0, and anything else goes
  through \<^verbatim>\<open>int\<close>, applied to the cell itself.
\<close>

definition stock_of_quantity :: "pyval \<Rightarrow> exn + int" where
  "stock_of_quantity q =
     (let count = py_str q in
      if count = ''>10'' then Inr 100
      else if count = ''1'' then Inr 0
      else py_int q)"

text \<open>The Ozon payload: \<^verbatim>\<open>{"offer_id": ..., "stock": ...}\<close>.\<close>

record ozon_stock =
  offer_id :: string
  stock :: int

text \<open>
  The first loop of \<^verbatim>\<open>create_stocks\<close>. The list \<^verbatim>\<open>offer_ids\<close> is changed in place
  (\<^verbatim>\<open>offer_ids.remove\<close> deletes the first occurrence), so the loop passes it on and
  returns it beside the stocks. An exception of \<^verbatim>\<open>int\<close> ends the function.
\<close>

fun seller_stocks_loop ::
  "watch list \<Rightarrow> string list \<Rightarrow> ozon_stock list \<Rightarrow> exn + (ozon_stock list \<times> string list)" where
  "seller_stocks_loop [] offer_ids stocks = Inr (stocks, offer_ids)"
| "seller_stocks_loop (watch # rest) offer_ids stocks =
     (if py_str (Kod watch) \<in> set offer_ids then
        (case stock_of_quantity (Kolichestvo watch) of
           Inl e \<Rightarrow> Inl e
         | Inr n \<Rightarrow>
             seller_stocks_loop rest
               (remove1 (py_str (Kod watch)) offer_ids)
               (stocks @ [\<lparr>offer_id = py_str (Kod watch), stock = n\<rparr>]))
      else seller_stocks_loop rest offer_ids stocks)"

definition seller_create_stocks ::
  "watch list \<Rightarrow> string list \<Rightarrow> exn + (ozon_stock list \<times> string list)" where
  "seller_create_stocks watch_remnants offer_ids =
     (case seller_stocks_loop watch_remnants offer_ids [] of
        Inl e \<Rightarrow> Inl e
      | Inr (stocks, offer_ids') \<Rightarrow>
          Inr (stocks @ map (\<lambda>i. \<lparr>offer_id = i, stock = 0\<rparr>) offer_ids', offer_ids'))"

text \<open>
  The Yandex Market payload:
  \<^verbatim>\<open>{"sku": ..., "warehouseId": ..., "items": [{"count": ..., "type": "FIT", "updatedAt": ...}]}\<close>.
  The key \<^verbatim>\<open>type\<close> is the field \<open>item_type\<close>. The time stamp is read from the clock once per
  call and is a parameter here.
\<close>

record market_item =
  count :: int
  item_type :: string
  updatedAt :: string

record market_stock =
  sku :: string
  warehouseId :: string
  items :: "market_item list"

definition market_stock_record :: "string \<Rightarrow> string \<Rightarrow> string \<Rightarrow> int \<Rightarrow> market_stock" where
  "market_stock_record warehouse_id date code n =
     \<lparr>sku = code, warehouseId = warehouse_id,
      items = [\<lparr>count = n, item_type = ''FIT'', updatedAt = date\<rparr>]\<rparr>"

fun market_stocks_loop ::
  "string \<Rightarrow> string \<Rightarrow> watch list \<Rightarrow> string list \<Rightarrow> market_stock list
     \<Rightarrow> exn + (market_stock list \<times> string list)" where
  "market_stocks_loop warehouse_id date [] offer_ids stocks = Inr (stocks, offer_ids)"
| "market_stocks_loop warehouse_id date (watch # rest) offer_ids stocks =
     (if py_str (Kod watch) \<in> set offer_ids then
        (case stock_of_quantity (Kolichestvo watch) of
           Inl e \<Rightarrow> Inl e
         | Inr n \<Rightarrow>
             market_stocks_loop warehouse_id date rest
               (remove1 (py_str (Kod watch)) offer_ids)
               (stocks @ [market_stock_record warehouse_id date (py_str (Kod watch)) n]))
      else market_stocks_loop warehouse_id date rest offer_ids stocks)"

definition market_create_stocks ::
  "watch list \<Rightarrow> string list \<Rightarrow> string \<Rightarrow> string \<Rightarrow> exn + (market_stock list \<times> string list)" where
  "market_create_stocks watch_remnants offer_ids warehouse_id date =
     (case market_stocks_loop warehouse_id date watch_remnants offer_ids [] of
        Inl e \<Rightarrow> Inl e
      | Inr (stocks, offer_ids') \<Rightarrow>
          Inr (stocks @ map (\<lambda>i. market_stock_record warehouse_id date i 0) offer_ids',
               offer_ids'))"

section \<open>create_prices (seller.py and market.py)\<close>

text \<open>
  The Ozon payload carries the result of \<^verbatim>\<open>price_conversion\<close> as it is, a string; the
  Yandex Market payload carries \<^verbatim>\<open>int\<close> of it. The field \<open>price\<close> of the Ozon record is
  therefore a Python value, so that the two can be compared. In the Ozon record the key
  \<^verbatim>\<open>offer_id\<close> is the field \<open>price_offer_id\<close>; in the Yandex Market record the keys
  \<^verbatim>\<open>id\<close>, \<^verbatim>\<open>price\<close> and \<^verbatim>\<open>value\<close> are the fields \<open>price_id\<close>, \<open>price_body\<close> and
  \<open>price_value\<close>. \<^verbatim>\<open>offer_ids\<close> is only read.
\<close>

record ozon_price =
  auto_action_enabled :: string
  currency_code :: string
  price_offer_id :: string
  old_price :: string
  price :: pyval

fun seller_prices_loop ::
  "watch list \<Rightarrow> string list \<Rightarrow> ozon_price list \<Rightarrow> exn + ozon_price list" where
  "seller_prices_loop [] offer_ids prices = Inr prices"
| "seller_prices_loop (watch # rest) offer_ids prices =
     (if py_str (Kod watch) \<in> set offer_ids then
        (case price_conversion (Tsena watch) of
           Inl e \<Rightarrow> Inl e
         | Inr p \<Rightarrow>
             seller_prices_loop rest offer_ids
               (prices @ [\<lparr>auto_action_enabled = ''UNKNOWN'', currency_code = ''RUB'',
                           price_offer_id = py_str (Kod watch), old_price = ''0'',
                           price = PStr p\<rparr>]))
      else seller_prices_loop rest offer_ids prices)"

definition seller_create_prices :: "watch list \<Rightarrow> string list \<Rightarrow> exn + ozon_price list" where
  "seller_create_prices watch_remnants offer_ids = seller_prices_loop watch_remnants offer_ids []"

record market_price_body =
  price_value :: int
  currencyId :: string

record market_price =
  price_id :: string
  price_body :: market_price_body

fun market_prices_loop ::
  "watch list \<Rightarrow> string list \<Rightarrow> market_price list \<Rightarrow> exn + market_price list" where
  "market_prices_loop [] offer_ids prices = Inr prices"
| "market_prices_loop (watch # rest) offer_ids prices =
     (if py_str (Kod watch) \<in> set offer_ids then
        (case price_conversion (Tsena watch) of
           Inl e \<Rightarrow> Inl e
         | Inr p \<Rightarrow>
             (case py_int (PStr p) of
                Inl e \<Rightarrow> Inl e
              | Inr v \<Rightarrow>
                  market_prices_loop rest offer_ids
                    (prices @ [\<lparr>price_id = py_str (Kod watch),
                                price_body = \<lparr>price_value = v, currencyId = ''RUR''\<rparr>\<rparr>])))
      else market_prices_loop rest offer_ids prices)"

definition market_create_prices :: "watch list \<Rightarrow> string list \<Rightarrow> exn + market_price list" where
  "market_create_prices watch_remnants offer_ids = market_prices_loop watch_remnants offer_ids []"

section \<open>Requests, exceptions and the console\<close>

text \<open>
  Everything the scripts do to the outside is a call of one of their own request
  functions or a \<^verbatim>\<open>print\<close>. A run is modelled by what \<^verbatim>\<open>main\<close> calls, in order, and by
  how it ends: with a value, with an exception, or not at all. \<open>None\<close> stands for a run
  that never returns, which only the loops of \<^verbatim>\<open>get_offer_ids\<close> can cause. The credentials
  read from the environment are part of the world's answers.
\<close>

datatype console = TimeoutMessage | ConnectionMessage exn | Error2Message exn

datatype event =
    GetOfferIdsOzon
  | UpdateStocksOzon "ozon_stock list"
  | UpdatePriceOzon "ozon_price list"
  | DownloadStock
  | GetOfferIdsMarket string
  | UpdateStocksMarket string "market_stock list"
  | UpdatePriceMarket string "market_price list"
  | Print console

type_synonym 'a io = "(event list \<times> (exn + 'a)) option"

definition io_return :: "'a \<Rightarrow> 'a io" where
  "io_return x = Some ([], Inr x)"

definition io_lift :: "exn + 'a \<Rightarrow> 'a io" where
  "io_lift r = Some ([], r)"

definition io_request :: "event \<Rightarrow> exn + 'a \<Rightarrow> 'a io" where
  "io_request ev r = Some ([ev], r)"

definition io_partial :: "event \<Rightarrow> (exn + 'a) option \<Rightarrow> 'a io" where
  "io_partial ev r = map_option (\<lambda>x. ([ev], x)) r"

definition io_bind :: "'a io \<Rightarrow> ('a \<Rightarrow> 'b io) \<Rightarrow> 'b io" where
  "io_bind m f =
     (case m of
        None \<Rightarrow> None
      | Some (tr, Inl e) \<Rightarrow> Some (tr, Inl e)
      | Some (tr, Inr x) \<Rightarrow>
          (case f x of None \<Rightarrow> None | Some (tr', r) \<Rightarrow> Some (tr @ tr', r)))"

text \<open>\<^verbatim>\<open>for x in xs: f(x)\<close>: the first exception ends the loop.\<close>

fun for_each :: "('a \<Rightarrow> unit io) \<Rightarrow> 'a list \<Rightarrow> unit io" where
  "for_each f [] = io_return ()"
| "for_each f (x # xs) = io_bind (f x) (\<lambda>_. for_each f xs)"

text \<open>
  The handlers of both \<^verbatim>\<open>main\<close> functions: \<^verbatim>\<open>ReadTimeout\<close>, then \<^verbatim>\<open>ConnectionError\<close>,
  then \<^verbatim>\<open>Exception\<close>; each prints and ends the \<^verbatim>\<open>try\<close> statement normally.
\<close>

fun console_of :: "exn \<Rightarrow> console" where
  "console_of ReadTimeout = TimeoutMessage"
| "console_of ConnectionError = ConnectionMessage ConnectionError"
| "console_of e = Error2Message e"

definition try_except :: "unit io \<Rightarrow> unit io" where
  "try_except body =
     (case body of
        None \<Rightarrow> None
      | Some (tr, Inl e) \<Rightarrow> Some (tr @ [Print (console_of e)], Inr ())
      | Some (tr, Inr u) \<Rightarrow> Some (tr, Inr u))"

text \<open>
  Calling a function declared with \<^verbatim>\<open>async def\<close> runs nothing of its body: the call
  returns a coroutine object, and the body runs only when the object is awaited.
\<close>

datatype 'a coroutine = Coroutine "'a io"

definition call_async :: "'a io \<Rightarrow> 'a coroutine io" where
  "call_async body = io_return (Coroutine body)"

section \<open>The answers of the marketplaces and of the supplier\<close>

text \<open>
  The \<^verbatim>\<open>result\<close> object of an Ozon product list (keys \<^verbatim>\<open>items\<close>, \<^verbatim>\<open>total\<close>, \<^verbatim>\<open>last_id\<close>;
  each item has an \<^verbatim>\<open>offer_id\<close>) and of the Yandex Market offer mapping entries (keys
  \<^verbatim>\<open>offerMappingEntries\<close> and \<^verbatim>\<open>paging.nextPageToken\<close>; each entry has \<^verbatim>\<open>offer.shopSku\<close>).
  A request function either raises (\<^verbatim>\<open>raise_for_status\<close>, a timeout, a lost connection)
  or returns. The answer to a listing request may depend on how many requests the call of
  \<^verbatim>\<open>get_offer_ids\<close> has made before, and on the cursor sent.
\<close>

record ozon_item =
  item_offer_id :: string

record ozon_result =
  result_items :: "ozon_item list"
  result_total :: int
  result_last_id :: string

record market_entry =
  shopSku :: string

record market_result =
  offerMappingEntries :: "market_entry list"
  nextPageToken :: "string option"

record world =
  ozon_product_list :: "nat \<Rightarrow> string \<Rightarrow> exn + ozon_result"
  ozon_import_stocks :: "ozon_stock list \<Rightarrow> exn + unit"
  ozon_import_prices :: "ozon_price list \<Rightarrow> exn + unit"
  ostatki :: "exn + watch list"
  market_offer_mapping_entries :: "string \<Rightarrow> nat \<Rightarrow> string \<Rightarrow> exn + market_result"
  market_put_stocks :: "string \<Rightarrow> market_stock list \<Rightarrow> exn + unit"
  market_post_prices :: "string \<Rightarrow> market_price list \<Rightarrow> exn + unit"

section \<open>get_offer_ids (seller.py and market.py)\<close>

text \<open>
  The \<^verbatim>\<open>while True\<close> loop of \<^verbatim>\<open>seller.py\<close>: it asks for the next page with the last id
  received, and stops when the reported total equals the number of items collected. It
  may run forever.
\<close>

partial_function (option) seller_product_pages ::
  "world \<Rightarrow> nat \<Rightarrow> string \<Rightarrow> ozon_item list \<Rightarrow> (exn + ozon_item list) option" where
  "seller_product_pages w k last_id product_list =
     (case ozon_product_list w k last_id of
        Inl e \<Rightarrow> Some (Inl e)
      | Inr some_prod \<Rightarrow>
          if result_total some_prod = int (length (product_list @ result_items some_prod))
          then Some (Inr (product_list @ result_items some_prod))
          else seller_product_pages w (Suc k) (result_last_id some_prod)
                 (product_list @ result_items some_prod))"

definition seller_get_offer_ids :: "world \<Rightarrow> (exn + string list) option" where
  "seller_get_offer_ids w =
     map_option (map_sum id (map item_offer_id)) (seller_product_pages w 0 [] [])"

text \<open>
  The loop of \<^verbatim>\<open>market.py\<close>: it stops when the next page token is missing or empty
  (\<^verbatim>\<open>if not page\<close>).
\<close>

partial_function (option) market_product_pages ::
  "world \<Rightarrow> string \<Rightarrow> nat \<Rightarrow> string \<Rightarrow> market_entry list \<Rightarrow> (exn + market_entry list) option" where
  "market_product_pages w campaign_id k page product_list =
     (case market_offer_mapping_entries w campaign_id k page of
        Inl e \<Rightarrow> Some (Inl e)
      | Inr some_prod \<Rightarrow>
          (case nextPageToken some_prod of
             None \<Rightarrow> Some (Inr (product_list @ offerMappingEntries some_prod))
           | Some page' \<Rightarrow>
               if page' = [] then Some (Inr (product_list @ offerMappingEntries some_prod))
               else market_product_pages w campaign_id (Suc k) page'
                      (product_list @ offerMappingEntries some_prod)))"

definition market_get_offer_ids :: "world \<Rightarrow> string \<Rightarrow> (exn + string list) option" where
  "market_get_offer_ids w campaign_id =
     map_option (map_sum id (map shopSku)) (market_product_pages w campaign_id 0 [] [])"

section \<open>main (seller.py)\<close>

definition download_stock :: "world \<Rightarrow> watch list io" where
  "download_stock w = io_request DownloadStock (ostatki w)"

definition seller_update_stocks :: "world \<Rightarrow> ozon_stock list \<Rightarrow> unit io" where
  "seller_update_stocks w stocks = io_request (UpdateStocksOzon stocks) (ozon_import_stocks w stocks)"

definition seller_update_price :: "world \<Rightarrow> ozon_price list \<Rightarrow> unit io" where
  "seller_update_price w prices = io_request (UpdatePriceOzon prices) (ozon_import_prices w prices)"

text \<open>
  The whole body of \<^verbatim>\<open>main\<close> is inside the \<^verbatim>\<open>try\<close> statement. \<^verbatim>\<open>create_prices\<close> is given
  the same list object that \<^verbatim>\<open>create_stocks\<close> has changed: the second \<open>offer_ids\<close> below is
  the list as \<^verbatim>\<open>create_stocks\<close> left it.
\<close>

definition seller_main :: "world \<Rightarrow> unit io" where
  "seller_main w =
     try_except
       (io_bind (io_partial GetOfferIdsOzon (seller_get_offer_ids w)) (\<lambda>offer_ids.
        io_bind (download_stock w) (\<lambda>watch_remnants.
        io_bind (io_lift (seller_create_stocks watch_remnants offer_ids)) (\<lambda>(stocks, offer_ids).
        io_bind (io_lift (divide stocks 100)) (\<lambda>chunks.
        io_bind (for_each (seller_update_stocks w) chunks) (\<lambda>_.
        io_bind (io_lift (seller_create_prices watch_remnants offer_ids)) (\<lambda>prices.
        io_bind (io_lift (divide prices 900)) (\<lambda>chunks.
        for_each (seller_update_price w) chunks))))))))"

section \<open>upload_prices and main (market.py)\<close>

definition market_update_stocks :: "world \<Rightarrow> string \<Rightarrow> market_stock list \<Rightarrow> unit io" where
  "market_update_stocks w campaign_id stocks =
     io_request (UpdateStocksMarket campaign_id stocks) (market_put_stocks w campaign_id stocks)"

definition market_update_price :: "world \<Rightarrow> string \<Rightarrow> market_price list \<Rightarrow> unit io" where
  "market_update_price w campaign_id prices =
     io_request (UpdatePriceMarket campaign_id prices) (market_post_prices w campaign_id prices)"

definition market_upload_prices :: "world \<Rightarrow> watch list \<Rightarrow> string \<Rightarrow> market_price list io" where
  "market_upload_prices w watch_remnants campaign_id =
     io_bind (io_partial (GetOfferIdsMarket campaign_id) (market_get_offer_ids w campaign_id))
       (\<lambda>offer_ids.
     io_bind (io_lift (market_create_prices watch_remnants offer_ids)) (\<lambda>prices.
     io_bind (io_lift (divide prices 500)) (\<lambda>chunks.
     io_bind (for_each (market_update_price w campaign_id) chunks) (\<lambda>_.
     io_return prices))))"

text \<open>
  The identifiers that \<^verbatim>\<open>main\<close> reads from the environment, and the two readings of the
  clock that its two calls of \<^verbatim>\<open>create_stocks\<close> make.
\<close>

record market_env =
  campaign_fbs_id :: string
  campaign_dbs_id :: string
  warehouse_fbs_id :: string
  warehouse_dbs_id :: string
  utcnow_fbs :: string
  utcnow_dbs :: string

text \<open>
  \<^verbatim>\<open>download_stock\<close> is called before the \<^verbatim>\<open>try\<close> statement. \<^verbatim>\<open>upload_prices\<close> is declared
  with \<^verbatim>\<open>async def\<close> and \<^verbatim>\<open>main\<close> calls it without awaiting the result.
\<close>

definition market_main :: "world \<Rightarrow> market_env \<Rightarrow> unit io" where
  "market_main w env =
     io_bind (download_stock w) (\<lambda>watch_remnants.
     try_except
       (io_bind (io_partial (GetOfferIdsMarket (campaign_fbs_id env))
                   (market_get_offer_ids w (campaign_fbs_id env))) (\<lambda>offer_ids.
        io_bind (io_lift (market_create_stocks watch_remnants offer_ids
                            (warehouse_fbs_id env) (utcnow_fbs env))) (\<lambda>(stocks, offer_ids).
        io_bind (io_lift (divide stocks 2000)) (\<lambda>chunks.
        io_bind (for_each (market_update_stocks w (campaign_fbs_id env)) chunks) (\<lambda>_.
        io_bind (call_async (market_upload_prices w watch_remnants (campaign_fbs_id env))) (\<lambda>_.
        io_bind (io_partial (GetOfferIdsMarket (campaign_dbs_id env))
                   (market_get_offer_ids w (campaign_dbs_id env))) (\<lambda>offer_ids.
        io_bind (io_lift (market_create_stocks watch_remnants offer_ids
                            (warehouse_dbs_id env) (utcnow_dbs env))) (\<lambda>(stocks, offer_ids).
        io_bind (io_lift (divide stocks 2000)) (\<lambda>chunks.
        io_bind (for_each (market_update_stocks w (campaign_dbs_id env)) chunks) (\<lambda>_.
        io_bind (call_async (market_upload_prices w watch_remnants (campaign_dbs_id env))) (\<lambda>_.
        io_return ()))))))))))))"

section \<open>What it means that the server ends the listing\<close>

text \<open>
  The precondition of the claim about \<^verbatim>\<open>get_offer_ids\<close>. \<open>ozon_serves w k cursor pages\<close>
  says that the server answers the requests from the \<open>k\<close>-th on with \<open>pages\<close>, where the
  first request carries \<open>cursor\<close> and every later one the last id of the page before. The
  end of the list is signalled at page \<open>j\<close> when its total equals the number of items of
  the pages up to it. For Yandex Market the cursor is the next page token, and the signal
  is a missing or empty token.
\<close>

fun ozon_serves :: "world \<Rightarrow> nat \<Rightarrow> string \<Rightarrow> ozon_result list \<Rightarrow> bool" where
  "ozon_serves w k cursor [] = True"
| "ozon_serves w k cursor (p # ps) =
     (ozon_product_list w k cursor = Inr p \<and> ozon_serves w (Suc k) (result_last_id p) ps)"

definition ozon_end_signal :: "ozon_result list \<Rightarrow> nat \<Rightarrow> bool" where
  "ozon_end_signal pages j =
     (result_total (pages ! j) = int (length (concat (map result_items (take (Suc j) pages)))))"

definition next_page_token :: "market_result \<Rightarrow> string" where
  "next_page_token p = (case nextPageToken p of None \<Rightarrow> [] | Some t \<Rightarrow> t)"

fun market_serves :: "world \<Rightarrow> string \<Rightarrow> nat \<Rightarrow> string \<Rightarrow> market_result list \<Rightarrow> bool" where
  "market_serves w campaign_id k cursor [] = True"
| "market_serves w campaign_id k cursor (p # ps) =
     (market_offer_mapping_entries w campaign_id k cursor = Inr p
      \<and> market_serves w campaign_id (Suc k) (next_page_token p) ps)"

definition market_end_signal :: "market_result \<Rightarrow> bool" where
  "market_end_signal p = (next_page_token p = [])"

section \<open>The translation table of the specification\<close>


text \<open>
  The specification's price: the digits-only prefix of the price string before any decimal
  point.
\<close>

definition spec_price_digits :: "string \<Rightarrow> string" where
  "spec_price_digits s = filter is_digit (takeWhile (\<lambda>c. c \<noteq> CHR ''.'') s)"

section \<open>Example worlds\<close>

text \<open>
  A world for the examples below. Ozon lists the offers A1 and B2 on two pages, where
  the second page's total ends the list; Yandex Market lists them on two pages for every
  campaign. The supplier has one record, for A1. Every update request succeeds. In
  \<open>supplier_down_world\<close> the supplier's site refuses the connection, and in
  \<open>listing_down_world\<close> every listing request times out.
\<close>

definition example_world :: world where
  "example_world =
     \<lparr>ozon_product_list = (\<lambda>k last_id.
        if last_id = [] then
          Inr \<lparr>result_items = [\<lparr>item_offer_id = ''A1''\<rparr>], result_total = 2, result_last_id = ''x''\<rparr>
        else if last_id = ''x'' then
          Inr \<lparr>result_items = [\<lparr>item_offer_id = ''B2''\<rparr>], result_total = 2, result_last_id = ''y''\<rparr>
        else Inl HTTPError),
      ozon_import_stocks = (\<lambda>stocks. Inr ()),
      ozon_import_prices = (\<lambda>prices. Inr ()),
      ostatki = Inr [\<lparr>Kod = PStr ''A1'', Kolichestvo = PStr ''>10'', Tsena = PStr ''100.00''\<rparr>],
      market_offer_mapping_entries = (\<lambda>campaign_id k page.
        if page = [] then
          Inr \<lparr>offerMappingEntries = [\<lparr>shopSku = ''A1''\<rparr>], nextPageToken = Some ''t''\<rparr>
        else
          Inr \<lparr>offerMappingEntries = [\<lparr>shopSku = ''B2''\<rparr>], nextPageToken = None\<rparr>),
      market_put_stocks = (\<lambda>campaign_id stocks. Inr ()),
      market_post_prices = (\<lambda>campaign_id prices. Inr ())\<rparr>"

definition supplier_down_world :: world where
  "supplier_down_world = example_world\<lparr>ostatki := Inl ConnectionError\<rparr>"

definition listing_down_world :: world where
  "listing_down_world =
     example_world\<lparr>ozon_product_list := (\<lambda>k last_id. Inl ReadTimeout),
                    market_offer_mapping_entries := (\<lambda>campaign_id k page. Inl ReadTimeout)\<rparr>"

definition example_env :: market_env where
  "example_env =
     \<lparr>campaign_fbs_id = ''FBS'', campaign_dbs_id = ''DBS'',
      warehouse_fbs_id = ''W1'', warehouse_dbs_id = ''W2'',
      utcnow_fbs = ''2024-01-01T00:00:00Z'', utcnow_dbs = ''2024-01-01T00:00:01Z''\<rparr>"

section \<open>Properties of runs\<close>

text \<open>\<open>io_events P m\<close>: every call and every print of the run \<open>m\<close> satisfies \<open>P\<close>.\<close>

definition io_events :: "(event \<Rightarrow> bool) \<Rightarrow> 'a io \<Rightarrow> bool" where
  "io_events P m = (case m of None \<Rightarrow> True | Some (tr, r) \<Rightarrow> list_all P tr)"

section \<open>Claim C4\<close>

lemma re_sub_non_digits_id:
  "list_all is_digit s \<Longrightarrow> re_sub_non_digits s = s"
  by (induction s) (auto simp: re_sub_non_digits_def)

lemma dot_not_digit: "\<not> is_digit (CHR ''.'')"
  by (simp add: is_digit_def)

lemma digit_not_dot: "is_digit c \<Longrightarrow> c \<noteq> CHR ''.''"
  using dot_not_digit by blast

lemma split_dot_first_id:
  "list_all is_digit s \<Longrightarrow> split_dot_first s = s"
  unfolding split_dot_first_def takeWhile_eq_all_conv list_all_iff
  by (blast dest: digit_not_dot)

text \<open>
  Claim C4. \<^verbatim>\<open>price_conversion\<close> turns the docstring's example, the price 5'990.00
  followed by a blank and the Cyrillic abbreviation of the rouble with its full stop
  (written here as its UTF-8 bytes), into 5990; and it returns every string that consists
  of digits only unchanged.
\<close>

theorem price_conversion_example_and_digits:
  "price_conversion
     (PStr (''5'990.00 '' @ [CHR 0xD1, CHR 0x80, CHR 0xD1, CHR 0x83, CHR 0xD0, CHR 0xB1] @ ''.''))
     = Inr ''5990''
   \<and> (list_all is_digit s \<longrightarrow> price_conversion (PStr s) = Inr s)"
proof
  show "price_conversion
     (PStr (''5'990.00 '' @ [CHR 0xD1, CHR 0x80, CHR 0xD1, CHR 0x83, CHR 0xD0, CHR 0xB1] @ ''.''))
     = Inr ''5990''"
    by (simp add: split_dot_first_def re_sub_non_digits_def is_digit_def)
  show "list_all is_digit s \<longrightarrow> price_conversion (PStr s) = Inr s"
    by (simp add: split_dot_first_id re_sub_non_digits_id)
qed

theorem price_conversion_digits_witness:
  "list_all is_digit ''5990'' \<and> price_conversion (PStr ''5990'') = Inr ''5990''"
  using price_conversion_example_and_digits [of "''5990''"]
  by (simp add: is_digit_def)

section \<open>Claim C5: divide\<close>

lemma divide_from_concat:
  "0 < n \<Longrightarrow> concat (divide_from lst n i) = drop i lst"
proof (induction lst n i rule: divide_from.induct)
  case (1 lst n i)
  show ?case
  proof (cases "length lst \<le> i")
    case True
    then show ?thesis by (simp add: divide_from.simps [of lst n i])
  next
    case False
    with 1 have "concat (divide_from lst n (i + n)) = drop (i + n) lst" by simp
    moreover have "take n (drop i lst) @ drop (i + n) lst = drop i lst"
      by (metis add.commute append_take_drop_id drop_drop)
    ultimately show ?thesis
      using False 1(2) by (simp add: divide_from.simps [of lst n i])
  qed
qed

lemma divide_from_length_le:
  "c \<in> set (divide_from lst n i) \<Longrightarrow> length c \<le> n"
proof (induction lst n i rule: divide_from.induct)
  case (1 lst n i)
  show ?case
  proof (cases "n = 0 \<or> length lst \<le> i")
    case True
    with 1(2) show ?thesis by (simp add: divide_from.simps [of lst n i])
  next
    case False
    with 1 show ?thesis
      by (auto simp: divide_from.simps [of lst n i])
  qed
qed

lemma divide_from_butlast:
  "c \<in> set (butlast (divide_from lst n i)) \<Longrightarrow> length c = n"
proof (induction lst n i rule: divide_from.induct)
  case (1 lst n i)
  show ?case
  proof (cases "n = 0 \<or> length lst \<le> i")
    case True
    with 1(2) show ?thesis by (simp add: divide_from.simps [of lst n i])
  next
    case False
    note F = this
    show ?thesis
    proof (cases "length lst \<le> i + n")
      case True
      then have "divide_from lst n (i + n) = []"
        by (simp add: divide_from.simps [of lst n "i + n"])
      with F 1(2) show ?thesis by (simp add: divide_from.simps [of lst n i])
    next
      case False
      then have ne: "divide_from lst n (i + n) \<noteq> []"
        using F by (simp add: divide_from.simps [of lst n "i + n"])
      from F have eq: "divide_from lst n i = take n (drop i lst) # divide_from lst n (i + n)"
        by (simp add: divide_from.simps [of lst n i])
      from 1(2) ne eq have "c = take n (drop i lst) \<or> c \<in> set (butlast (divide_from lst n (i + n)))"
        by auto
      then show ?thesis
      proof
        assume "c = take n (drop i lst)"
        with False show ?thesis by simp
      next
        assume "c \<in> set (butlast (divide_from lst n (i + n)))"
        with 1(1) F show ?thesis by simp
      qed
    qed
  qed
qed

lemma divide_from_2500:
  assumes "length lst = 2500"
  shows "map length (divide_from lst 1000 0) = [1000, 1000, 500]"
proof -
  have a: "divide_from lst 1000 3000 = []"
    using assms by (simp add: divide_from.simps [of lst 1000 3000])
  have b: "divide_from lst 1000 2000 = [take 1000 (drop 2000 lst)]"
    using assms a by (simp add: divide_from.simps [of lst 1000 2000])
  have c: "divide_from lst 1000 1000 = [take 1000 (drop 1000 lst), take 1000 (drop 2000 lst)]"
    using assms b by (simp add: divide_from.simps [of lst 1000 1000])
  have d: "divide_from lst 1000 0 = [take 1000 lst, take 1000 (drop 1000 lst), take 1000 (drop 2000 lst)]"
    using assms c by (simp add: divide_from.simps [of lst 1000 0])
  show ?thesis using assms by (simp add: d)
qed

text \<open>
  Claim C5. For a positive chunk size \<open>n\<close>, \<^verbatim>\<open>divide(lst, n)\<close> yields chunks whose
  concatenation is \<open>lst\<close>; every chunk has at most \<open>n\<close> elements and every chunk but
  the last has exactly \<open>n\<close>; a list of 2500 items cut by 1000 gives chunks of sizes
  1000, 1000 and 500.
\<close>

theorem divide_chunks:
  "0 < n \<Longrightarrow>
   \<exists>chunks. divide lst n = Inr chunks
     \<and> concat chunks = lst
     \<and> (\<forall>c \<in> set chunks. int (length c) \<le> n)
     \<and> (\<forall>c \<in> set (butlast chunks). int (length c) = n)
     \<and> (length lst = 2500 \<and> n = 1000 \<longrightarrow> map length chunks = [1000, 1000, 500])"
proof -
  assume n: "0 < n"
  let ?chunks = "divide_from lst (nat n) 0"
  show ?thesis
  proof (intro exI [of _ ?chunks] conjI ballI impI)
    show "divide lst n = Inr ?chunks" using n by (simp add: divide_def)
    show "concat ?chunks = lst" using n by (simp add: divide_from_concat)
    show "int (length c) \<le> n" if "c \<in> set ?chunks" for c
      using n divide_from_length_le [OF that] by linarith
    show "int (length c) = n" if "c \<in> set (butlast ?chunks)" for c
      using n divide_from_butlast [OF that] by linarith
    show "map length ?chunks = [1000, 1000, 500]" if a: "length lst = 2500 \<and> n = 1000"
    proof -
      from a have len: "length lst = 2500" and n1000: "nat n = 1000" by simp_all
      show ?thesis unfolding n1000 using len by (rule divide_from_2500)
    qed
  qed
qed

theorem divide_chunks_witness:
  "(0::int) < 1000 \<and> length (replicate 2500 (0::nat)) = 2500
   \<and> (\<exists>chunks. divide (replicate 2500 (0::nat)) 1000 = Inr chunks
        \<and> concat chunks = replicate 2500 0
        \<and> map length chunks = [1000, 1000, 500])"
proof -
  have h: "(0::int) < 1000" by simp
  have l: "length (replicate 2500 (0::nat)) = 2500" by (rule length_replicate)
  from divide_chunks [OF h, of "replicate 2500 (0::nat)"]
  obtain chunks where all: "divide (replicate 2500 (0::nat)) 1000 = Inr chunks
     \<and> concat chunks = replicate 2500 0
     \<and> (\<forall>c \<in> set chunks. int (length c) \<le> 1000)
     \<and> (\<forall>c \<in> set (butlast chunks). int (length c) = 1000)
     \<and> (length (replicate 2500 (0::nat)) = 2500 \<and> (1000::int) = 1000
           \<longrightarrow> map length chunks = [1000, 1000, 500])" ..
  note d = all [THEN conjunct1]
  note c = all [THEN conjunct2, THEN conjunct1]
  note m = all [THEN conjunct2, THEN conjunct2, THEN conjunct2, THEN conjunct2]
  have sizes: "map length chunks = [1000, 1000, 500]"
    by (rule m [THEN mp, OF conjI [OF l refl]])
  show ?thesis
    by (intro conjI exI [of _ chunks]) (rule h l d c sizes)+
qed

section \<open>The loop of create_stocks\<close>

lemma seller_stocks_loop_acc:
  "seller_stocks_loop w ids acc =
     map_sum id (\<lambda>(st, ids'). (acc @ st, ids')) (seller_stocks_loop w ids [])"
proof (induction w arbitrary: ids acc)
  case Nil
  show ?case by simp
next
  case (Cons r w)
  show ?case
  proof (cases "py_str (Kod r) \<in> set ids")
    case False
    then show ?thesis using Cons.IH [of ids acc] by simp
  next
    case True
    show ?thesis
    proof (cases "stock_of_quantity (Kolichestvo r)")
      case (Inl e)
      with True show ?thesis by simp
    next
      case (Inr n)
      let ?x = "\<lparr>offer_id = py_str (Kod r), stock = n\<rparr>"
      let ?ids = "remove1 (py_str (Kod r)) ids"
      have l: "seller_stocks_loop (r # w) ids acc = seller_stocks_loop w ?ids (acc @ [?x])"
        using True Inr by simp
      have r: "seller_stocks_loop (r # w) ids [] = seller_stocks_loop w ?ids [?x]"
        using True Inr by simp
      show ?thesis
        unfolding l r
        by (subst Cons.IH [of ?ids "acc @ [?x]"], subst Cons.IH [of ?ids "[?x]"])
           (cases "seller_stocks_loop w ?ids []"; auto)
    qed
  qed
qed

lemma seller_stocks_loop_Cons:
  "seller_stocks_loop (r # w) ids [] =
     (if py_str (Kod r) \<in> set ids then
        (case stock_of_quantity (Kolichestvo r) of
           Inl e \<Rightarrow> Inl e
         | Inr n \<Rightarrow>
             map_sum id (\<lambda>(st, ids'). (\<lparr>offer_id = py_str (Kod r), stock = n\<rparr> # st, ids'))
               (seller_stocks_loop w (remove1 (py_str (Kod r)) ids) []))
      else seller_stocks_loop w ids [])"
proof (cases "py_str (Kod r) \<in> set ids")
  case False
  then show ?thesis by simp
next
  case True
  show ?thesis
  proof (cases "stock_of_quantity (Kolichestvo r)")
    case (Inl e)
    with True show ?thesis by simp
  next
    case (Inr n)
    have "seller_stocks_loop (r # w) ids [] =
        seller_stocks_loop w (remove1 (py_str (Kod r)) ids) [\<lparr>offer_id = py_str (Kod r), stock = n\<rparr>]"
      using True Inr by simp
    also have "\<dots> = map_sum id (\<lambda>(st, ids'). ([\<lparr>offer_id = py_str (Kod r), stock = n\<rparr>] @ st, ids'))
               (seller_stocks_loop w (remove1 (py_str (Kod r)) ids) [])"
      by (rule seller_stocks_loop_acc)
    finally show ?thesis using True Inr by simp
  qed
qed

lemma seller_stocks_loop_Cons_Inr:
  assumes "seller_stocks_loop (r # w) ids [] = Inr (st, ids')"
  obtains (skip) "py_str (Kod r) \<notin> set ids"
      and "seller_stocks_loop w ids [] = Inr (st, ids')"
    | (match) n st1 where "py_str (Kod r) \<in> set ids"
      and "stock_of_quantity (Kolichestvo r) = Inr n"
      and "st = \<lparr>offer_id = py_str (Kod r), stock = n\<rparr> # st1"
      and "seller_stocks_loop w (remove1 (py_str (Kod r)) ids) [] = Inr (st1, ids')"
proof (cases "py_str (Kod r) \<in> set ids")
  case False
  with assms have "seller_stocks_loop w ids [] = Inr (st, ids')" by simp
  with False show ?thesis by (rule skip)
next
  case True
  note c = this
  show ?thesis
  proof (cases "stock_of_quantity (Kolichestvo r)")
    case (Inl e)
    with assms c show ?thesis by simp
  next
    case (Inr n)
    note q = this
    let ?x = "\<lparr>offer_id = py_str (Kod r), stock = n\<rparr>"
    from assms c q have eq:
      "map_sum id (\<lambda>(st, ids'). (?x # st, ids'))
         (seller_stocks_loop w (remove1 (py_str (Kod r)) ids) []) = Inr (st, ids')"
      unfolding seller_stocks_loop_Cons by simp
    show ?thesis
    proof (cases "seller_stocks_loop w (remove1 (py_str (Kod r)) ids) []")
      case (Inl e)
      with eq show ?thesis by simp
    next
      case (Inr p)
      obtain st1 ids1 where p: "p = (st1, ids1)" by (cases p)
      from eq Inr p have "st = ?x # st1" and "ids1 = ids'" by simp_all
      with Inr p c q show ?thesis by (intro match [of n st1]) simp_all
    qed
  qed
qed


lemma count_list_remove1:
  "c \<in> set ids \<Longrightarrow>
   count_list (remove1 c ids) i = (if i = c then count_list ids i - 1 else count_list ids i)"
  by (induction ids) auto

lemma seller_stocks_loop_count:
  "seller_stocks_loop w ids [] = Inr (st, ids') \<Longrightarrow>
   count_list (map offer_id st) i + count_list ids' i = count_list ids i"
proof (induction w arbitrary: ids st)
  case Nil
  then show ?case by simp
next
  case (Cons r w)
  let ?c = "py_str (Kod r)"
  from Cons.prems show ?case
  proof (cases rule: seller_stocks_loop_Cons_Inr)
    case skip
    from Cons.IH [OF skip(2)] show ?thesis .
  next
    case (match n st1)
    from Cons.IH [OF match(4)]
    have ih: "count_list (map offer_id st1) i + count_list ids' i = count_list (remove1 ?c ids) i" .
    have pos: "0 < count_list ids ?c"
      using match(1) count_list_0_iff [of ids ?c] by (cases "count_list ids ?c") simp_all
    show ?thesis
    proof (cases "i = ?c")
      case True
      with ih pos show ?thesis
        by (simp add: match(3) count_list_remove1 [OF match(1)])
    next
      case False
      with ih show ?thesis
        by (simp add: match(3) count_list_remove1 [OF match(1)])
    qed
  qed
qed

lemma seller_stocks_loop_codes:
  "seller_stocks_loop w ids [] = Inr (st, ids') \<Longrightarrow> s \<in> set st \<Longrightarrow>
   offer_id s \<in> (\<lambda>r. py_str (Kod r)) ` set w"
proof (induction w arbitrary: ids st)
  case Nil
  then show ?case by simp
next
  case (Cons r w)
  let ?c = "py_str (Kod r)"
  from Cons.prems(1) show ?case
  proof (cases rule: seller_stocks_loop_Cons_Inr)
    case skip
    from Cons.IH [OF skip(2) Cons.prems(2)] show ?thesis by simp
  next
    case (match n st1)
    from Cons.prems(2) match(3)
    have "s = \<lparr>offer_id = ?c, stock = n\<rparr> \<or> s \<in> set st1" by simp
    then show ?thesis
    proof
      assume "s = \<lparr>offer_id = ?c, stock = n\<rparr>"
      then show ?thesis by simp
    next
      assume "s \<in> set st1"
      from Cons.IH [OF match(4) this] show ?thesis by simp
    qed
  qed
qed

lemma seller_stocks_loop_rest:
  "distinct ids \<Longrightarrow> seller_stocks_loop w ids [] = Inr (st, ids') \<Longrightarrow>
   ids' = filter (\<lambda>i. i \<notin> (\<lambda>r. py_str (Kod r)) ` set w) ids"
proof (induction w arbitrary: ids st)
  case Nil
  then show ?case by simp
next
  case (Cons r w)
  let ?c = "py_str (Kod r)"
  let ?codes = "(\<lambda>r. py_str (Kod r)) ` set w"
  from Cons.prems(2) show ?case
  proof (cases rule: seller_stocks_loop_Cons_Inr)
    case skip
    from Cons.IH [OF Cons.prems(1) skip(2)]
    have "ids' = filter (\<lambda>i. i \<notin> ?codes) ids" .
    also have "\<dots> = filter (\<lambda>i. i \<notin> (\<lambda>r. py_str (Kod r)) ` set (r # w)) ids"
      using skip(1) by (intro filter_cong) auto
    finally show ?thesis .
  next
    case (match n st1)
    have d: "distinct (remove1 ?c ids)" using Cons.prems(1) by simp
    from Cons.IH [OF d match(4)]
    have "ids' = filter (\<lambda>i. i \<notin> ?codes) (remove1 ?c ids)" .
    also have "remove1 ?c ids = filter (\<lambda>i. i \<noteq> ?c) ids"
      using Cons.prems(1)
      by (simp add: distinct_remove1_removeAll removeAll_filter_not_eq) (rule filter_cong; auto)
    also have "filter (\<lambda>i. i \<notin> ?codes) (filter (\<lambda>i. i \<noteq> ?c) ids)
      = filter (\<lambda>i. i \<notin> (\<lambda>r. py_str (Kod r)) ` set (r # w)) ids"
      by (simp add: conj_commute)
    finally show ?thesis .
  qed
qed

section \<open>int of str of an integer\<close>










section \<open>create_stocks of the two scripts\<close>

lemma market_stocks_loop_sim:
  "market_stocks_loop wh d w ids (map (\<lambda>s. market_stock_record wh d (offer_id s) (stock s)) acc) =
     map_sum id (\<lambda>(st, ids'). (map (\<lambda>s. market_stock_record wh d (offer_id s) (stock s)) st, ids'))
       (seller_stocks_loop w ids acc)"
proof (induction w arbitrary: ids acc)
  case Nil
  show ?case by simp
next
  case (Cons r w)
  let ?f = "\<lambda>s. market_stock_record wh d (offer_id s) (stock s)"
  show ?case
  proof (cases "py_str (Kod r) \<in> set ids")
    case False
    then show ?thesis using Cons.IH [of ids acc] by simp
  next
    case True
    show ?thesis
    proof (cases "stock_of_quantity (Kolichestvo r)")
      case (Inl e)
      with True show ?thesis by simp
    next
      case (Inr n)
      let ?x = "\<lparr>offer_id = py_str (Kod r), stock = n\<rparr>"
      have "map ?f acc @ [market_stock_record wh d (py_str (Kod r)) n] = map ?f (acc @ [?x])"
        by simp
      then show ?thesis
        using True Inr Cons.IH [of "remove1 (py_str (Kod r)) ids" "acc @ [?x]"]
        by simp
    qed
  qed
qed

lemma market_create_stocks_sim:
  "market_create_stocks w ids wh d =
     map_sum id (\<lambda>(st, ids'). (map (\<lambda>s. market_stock_record wh d (offer_id s) (stock s)) st, ids'))
       (seller_create_stocks w ids)"
proof -
  let ?f = "\<lambda>s. market_stock_record wh d (offer_id s) (stock s)"
  have "market_stocks_loop wh d w ids [] =
      map_sum id (\<lambda>(st, ids'). (map ?f st, ids')) (seller_stocks_loop w ids [])"
    using market_stocks_loop_sim [of wh d w ids "[]"] by simp
  then show ?thesis
    unfolding market_create_stocks_def seller_create_stocks_def
    by (cases "seller_stocks_loop w ids []") (auto simp: comp_def)
qed

lemma market_create_stocks_Inr:
  assumes "market_create_stocks w ids wh d = Inr (mstocks, mrest)"
  obtains stocks where "seller_create_stocks w ids = Inr (stocks, mrest)"
    and "mstocks = map (\<lambda>s. market_stock_record wh d (offer_id s) (stock s)) stocks"
proof (cases "seller_create_stocks w ids")
  case (Inl e)
  with assms show ?thesis by (simp add: market_create_stocks_sim)
next
  case (Inr p)
  obtain stocks rest where p: "p = (stocks, rest)" by (cases p)
  from assms Inr p have "mstocks = map (\<lambda>s. market_stock_record wh d (offer_id s) (stock s)) stocks
    \<and> rest = mrest"
    by (auto simp: market_create_stocks_sim)
  with Inr p that show ?thesis by simp
qed

lemma seller_create_stocks_Inr:
  assumes "seller_create_stocks w ids = Inr (stocks, rest)"
  obtains st where "seller_stocks_loop w ids [] = Inr (st, rest)"
    and "stocks = st @ map (\<lambda>i. \<lparr>offer_id = i, stock = 0\<rparr>) rest"
proof (cases "seller_stocks_loop w ids []")
  case (Inl e)
  with assms show ?thesis by (simp add: seller_create_stocks_def)
next
  case (Inr p)
  obtain st rest' where p: "p = (st, rest')" by (cases p)
  from assms Inr p have "stocks = st @ map (\<lambda>i. \<lparr>offer_id = i, stock = 0\<rparr>) rest' \<and> rest' = rest"
    by (auto simp: seller_create_stocks_def)
  with Inr p that show ?thesis by simp
qed

lemma seller_create_stocks_count:
  assumes "seller_create_stocks w ids = Inr (stocks, rest)"
  shows "count_list (map offer_id stocks) i = count_list ids i"
proof -
  from assms obtain st where run: "seller_stocks_loop w ids [] = Inr (st, rest)"
    and st: "stocks = st @ map (\<lambda>i. \<lparr>offer_id = i, stock = 0\<rparr>) rest"
    by (rule seller_create_stocks_Inr)
  have "map offer_id (map (\<lambda>i. \<lparr>offer_id = i, stock = 0\<rparr>) rest) = rest"
    by (induction rest) simp_all
  then have "count_list (map offer_id stocks) i = count_list (map offer_id st) i + count_list rest i"
    by (simp add: st)
  with seller_stocks_loop_count [OF run, of i] show ?thesis by simp
qed

lemma seller_create_stocks_zero:
  assumes "seller_create_stocks w ids = Inr (stocks, rest)"
    and "s \<in> set stocks" and "offer_id s \<notin> (\<lambda>r. py_str (Kod r)) ` set w"
  shows "stock s = 0"
proof -
  from assms(1) obtain st where run: "seller_stocks_loop w ids [] = Inr (st, rest)"
    and st: "stocks = st @ map (\<lambda>i. \<lparr>offer_id = i, stock = 0\<rparr>) rest"
    by (rule seller_create_stocks_Inr)
  from assms(3) seller_stocks_loop_codes [OF run] have "s \<notin> set st" by blast
  with assms(2) st have "s \<in> set (map (\<lambda>i. \<lparr>offer_id = i, stock = 0\<rparr>) rest)" by simp
  then show ?thesis by auto
qed

lemma seller_create_stocks_rest:
  assumes "distinct ids" and "seller_create_stocks w ids = Inr (stocks, rest)"
  shows "rest = filter (\<lambda>i. i \<notin> (\<lambda>r. py_str (Kod r)) ` set w) ids"
proof -
  from assms(2) obtain st where run: "seller_stocks_loop w ids [] = Inr (st, rest)"
    by (rule seller_create_stocks_Inr)
  from seller_stocks_loop_rest [OF assms(1) run] show ?thesis .
qed

lemma distinct_count_list_1:
  "distinct xs \<Longrightarrow> x \<in> set xs \<Longrightarrow> count_list xs x = 1"
  by (induction xs) auto

lemma market_record_fields:
  "sku (market_stock_record wh d c n) = c"
  "map count (items (market_stock_record wh d c n)) = [n]"
  "warehouseId (market_stock_record wh d c n) = wh"
  by (simp_all add: market_stock_record_def)

section \<open>Claims C1 and C9: the stock list and the consumed offer ids\<close>

text \<open>
  Claim C1, as amended. For every list of supplier records and every list of known offer
  ids without duplicates: when \<^verbatim>\<open>create_stocks\<close> returns, its stock list holds every known
  offer id exactly once, and every record whose offer id is the code of no supplier record
  has count 0. This holds for the Ozon and for the Yandex Market script.
\<close>

theorem create_stocks_each_offer_id_once:
  assumes "distinct offer_ids"
  shows "(seller_create_stocks w offer_ids = Inr (stocks, rest) \<longrightarrow>
            (\<forall>i \<in> set offer_ids. count_list (map offer_id stocks) i = 1)
          \<and> (\<forall>s \<in> set stocks. offer_id s \<notin> (\<lambda>r. py_str (Kod r)) ` set w \<longrightarrow> stock s = 0))
       \<and> (market_create_stocks w offer_ids warehouse_id date = Inr (mstocks, mrest) \<longrightarrow>
            (\<forall>i \<in> set offer_ids. count_list (map sku mstocks) i = 1)
          \<and> (\<forall>s \<in> set mstocks. sku s \<notin> (\<lambda>r. py_str (Kod r)) ` set w
                \<longrightarrow> map count (items s) = [0]))"
proof (intro conjI impI ballI)
  fix i assume run: "seller_create_stocks w offer_ids = Inr (stocks, rest)" and i: "i \<in> set offer_ids"
  show "count_list (map offer_id stocks) i = 1"
    using seller_create_stocks_count [OF run, of i] distinct_count_list_1 [OF assms i] by simp
next
  fix s assume run: "seller_create_stocks w offer_ids = Inr (stocks, rest)"
    and s: "s \<in> set stocks" "offer_id s \<notin> (\<lambda>r. py_str (Kod r)) ` set w"
  show "stock s = 0" using run s by (rule seller_create_stocks_zero)
next
  fix i assume run: "market_create_stocks w offer_ids warehouse_id date = Inr (mstocks, mrest)"
    and i: "i \<in> set offer_ids"
  from run obtain st where srun: "seller_create_stocks w offer_ids = Inr (st, mrest)"
    and m: "mstocks = map (\<lambda>s. market_stock_record warehouse_id date (offer_id s) (stock s)) st"
    by (rule market_create_stocks_Inr)
  have "map sku mstocks = map offer_id st"
    by (simp add: m market_record_fields comp_def)
  then show "count_list (map sku mstocks) i = 1"
    using seller_create_stocks_count [OF srun, of i] distinct_count_list_1 [OF assms i] by simp
next
  fix s assume run: "market_create_stocks w offer_ids warehouse_id date = Inr (mstocks, mrest)"
    and s: "s \<in> set mstocks" "sku s \<notin> (\<lambda>r. py_str (Kod r)) ` set w"
  from run obtain st where srun: "seller_create_stocks w offer_ids = Inr (st, mrest)"
    and m: "mstocks = map (\<lambda>s. market_stock_record warehouse_id date (offer_id s) (stock s)) st"
    by (rule market_create_stocks_Inr)
  from s(1) m obtain t where t: "t \<in> set st"
    and st: "s = market_stock_record warehouse_id date (offer_id t) (stock t)"
    by auto
  from s(2) st have "offer_id t \<notin> (\<lambda>r. py_str (Kod r)) ` set w"
    by (simp add: market_record_fields)
  with srun t have "stock t = 0" by (rule seller_create_stocks_zero)
  then show "map count (items s) = [0]" by (simp add: st market_record_fields)
qed

theorem create_stocks_each_offer_id_once_witness:
  "distinct [''A1'', ''B2'']
   \<and> seller_create_stocks
        [\<lparr>Kod = PStr ''A1'', Kolichestvo = PStr ''>10'', Tsena = PStr ''100.00''\<rparr>] [''A1'', ''B2'']
      = Inr ([\<lparr>offer_id = ''A1'', stock = 100\<rparr>, \<lparr>offer_id = ''B2'', stock = 0\<rparr>], [''B2''])
   \<and> count_list (map offer_id [\<lparr>offer_id = ''A1'', stock = 100\<rparr>, \<lparr>offer_id = ''B2'', stock = 0\<rparr>]) ''A1'' = 1
   \<and> count_list (map offer_id [\<lparr>offer_id = ''A1'', stock = 100\<rparr>, \<lparr>offer_id = ''B2'', stock = 0\<rparr>]) ''B2'' = 1
   \<and> market_create_stocks
        [\<lparr>Kod = PStr ''A1'', Kolichestvo = PStr ''>10'', Tsena = PStr ''100.00''\<rparr>] [''A1'', ''B2'']
        ''W'' ''2024-01-01T00:00:00Z''
      = Inr ([market_stock_record ''W'' ''2024-01-01T00:00:00Z'' ''A1'' 100,
              market_stock_record ''W'' ''2024-01-01T00:00:00Z'' ''B2'' 0], [''B2''])
   \<and> count_list (map sku [market_stock_record ''W'' ''2024-01-01T00:00:00Z'' ''A1'' 100,
              market_stock_record ''W'' ''2024-01-01T00:00:00Z'' ''B2'' 0]) ''B2'' = 1"
proof -
  let ?w = "[\<lparr>Kod = PStr ''A1'', Kolichestvo = PStr ''>10'', Tsena = PStr ''100.00''\<rparr>]"
  let ?st = "[\<lparr>offer_id = ''A1'', stock = 100\<rparr>, \<lparr>offer_id = ''B2'', stock = 0\<rparr>]"
  let ?mst = "[market_stock_record ''W'' ''2024-01-01T00:00:00Z'' ''A1'' 100,
              market_stock_record ''W'' ''2024-01-01T00:00:00Z'' ''B2'' 0]"
  have d: "distinct [''A1'', ''B2'']" by simp
  have s: "seller_create_stocks ?w [''A1'', ''B2''] = Inr (?st, [''B2''])"
    by (simp add: seller_create_stocks_def stock_of_quantity_def)
  have m: "market_create_stocks ?w [''A1'', ''B2''] ''W'' ''2024-01-01T00:00:00Z'' = Inr (?mst, [''B2''])"
    by (simp add: market_create_stocks_def stock_of_quantity_def)
  note t = create_stocks_each_offer_id_once [OF d, of ?w ?st "[''B2'']" "''W''"
      "''2024-01-01T00:00:00Z''" ?mst "[''B2'']"]
  from t s have a: "\<forall>i \<in> set [''A1'', ''B2'']. count_list (map offer_id ?st) i = 1" by blast
  from t m have b: "\<forall>i \<in> set [''A1'', ''B2'']. count_list (map sku ?mst) i = 1" by blast
  from a have a1: "count_list (map offer_id ?st) ''A1'' = 1"
    and a2: "count_list (map offer_id ?st) ''B2'' = 1" by simp_all
  from b have b2: "count_list (map sku ?mst) ''B2'' = 1" by simp
  from d s a1 a2 m b2 show ?thesis by blast
qed

text \<open>
  The claim as it was stated, for every list of offer ids, fails on a list that holds an
  id twice: the id is then in the stock list twice.
\<close>

theorem create_stocks_duplicate_id_counterexample:
  "seller_create_stocks [] [''A1'', ''A1'']
     = Inr ([\<lparr>offer_id = ''A1'', stock = 0\<rparr>, \<lparr>offer_id = ''A1'', stock = 0\<rparr>], [''A1'', ''A1''])
   \<and> count_list (map offer_id [\<lparr>offer_id = ''A1'', stock = 0\<rparr>, \<lparr>offer_id = ''A1'', stock = 0\<rparr>])
        ''A1'' = 2"
  by (simp add: seller_create_stocks_def)

text \<open>
  Claim C9, as amended. For a list of known offer ids without duplicates: when
  \<^verbatim>\<open>create_stocks\<close> returns, the offer-id list it was given is left as the original list
  without the ids that are the code of some supplier record, the other ids unchanged and in
  their order.
\<close>

theorem create_stocks_consumes_matched_ids:
  assumes "distinct offer_ids"
  shows "(seller_create_stocks w offer_ids = Inr (stocks, rest) \<longrightarrow>
            rest = filter (\<lambda>i. i \<notin> (\<lambda>r. py_str (Kod r)) ` set w) offer_ids)
       \<and> (market_create_stocks w offer_ids warehouse_id date = Inr (mstocks, mrest) \<longrightarrow>
            mrest = filter (\<lambda>i. i \<notin> (\<lambda>r. py_str (Kod r)) ` set w) offer_ids)"
proof (intro conjI impI)
  assume "seller_create_stocks w offer_ids = Inr (stocks, rest)"
  with assms show "rest = filter (\<lambda>i. i \<notin> (\<lambda>r. py_str (Kod r)) ` set w) offer_ids"
    by (rule seller_create_stocks_rest)
next
  assume "market_create_stocks w offer_ids warehouse_id date = Inr (mstocks, mrest)"
  then obtain st where "seller_create_stocks w offer_ids = Inr (st, mrest)"
    by (rule market_create_stocks_Inr)
  with assms show "mrest = filter (\<lambda>i. i \<notin> (\<lambda>r. py_str (Kod r)) ` set w) offer_ids"
    by (rule seller_create_stocks_rest)
qed

theorem create_stocks_consumes_matched_ids_witness:
  "distinct [''A1'', ''B2'', ''C3'']
   \<and> seller_create_stocks
        [\<lparr>Kod = PStr ''B2'', Kolichestvo = PStr ''7'', Tsena = PStr ''100.00''\<rparr>] [''A1'', ''B2'', ''C3'']
      = Inr ([\<lparr>offer_id = ''B2'', stock = 7\<rparr>, \<lparr>offer_id = ''A1'', stock = 0\<rparr>,
              \<lparr>offer_id = ''C3'', stock = 0\<rparr>], [''A1'', ''C3''])
   \<and> [''A1'', ''C3''] =
       filter (\<lambda>i. i \<notin> (\<lambda>r. py_str (Kod r)) `
                 set [\<lparr>Kod = PStr ''B2'', Kolichestvo = PStr ''7'', Tsena = PStr ''100.00''\<rparr>])
         [''A1'', ''B2'', ''C3'']"
proof -
  let ?w = "[\<lparr>Kod = PStr ''B2'', Kolichestvo = PStr ''7'', Tsena = PStr ''100.00''\<rparr>]"
  let ?st = "[\<lparr>offer_id = ''B2'', stock = 7\<rparr>, \<lparr>offer_id = ''A1'', stock = 0\<rparr>,
              \<lparr>offer_id = ''C3'', stock = 0\<rparr>]"
  have d: "distinct [''A1'', ''B2'', ''C3'']" by simp
  have s: "seller_create_stocks ?w [''A1'', ''B2'', ''C3''] = Inr (?st, [''A1'', ''C3''])"
    by (simp add: seller_create_stocks_def stock_of_quantity_def py_int_str_def strip_def
        is_space_def int_of_digits_def is_digit_def dec_value_def digit_value_def)
  from create_stocks_consumes_matched_ids [OF d, of ?w ?st "[''A1'', ''C3'']"] s
  have "[''A1'', ''C3''] = filter (\<lambda>i. i \<notin> (\<lambda>r. py_str (Kod r)) ` set ?w) [''A1'', ''B2'', ''C3'']"
    by blast
  with d s show ?thesis by blast
qed

text \<open>
  With an id that occurs twice, one supplier record removes only its first occurrence: the
  id matches a supplier record and is still in the list.
\<close>

theorem create_stocks_duplicate_id_left_counterexample:
  "seller_create_stocks
        [\<lparr>Kod = PStr ''B2'', Kolichestvo = PStr ''>10'', Tsena = PStr ''100.00''\<rparr>] [''B2'', ''B2'', ''C3'']
      = Inr ([\<lparr>offer_id = ''B2'', stock = 100\<rparr>, \<lparr>offer_id = ''B2'', stock = 0\<rparr>,
              \<lparr>offer_id = ''C3'', stock = 0\<rparr>], [''B2'', ''C3''])
   \<and> filter (\<lambda>i. i \<notin> (\<lambda>r. py_str (Kod r)) `
                 set [\<lparr>Kod = PStr ''B2'', Kolichestvo = PStr ''>10'', Tsena = PStr ''100.00''\<rparr>])
         [''B2'', ''B2'', ''C3''] = [''C3'']"
  by (simp add: seller_create_stocks_def stock_of_quantity_def)

section \<open>Claim C2: the translation of quantities\<close>






section \<open>Claim C3: create_prices\<close>

lemma price_conversion_Inr:
  assumes "price_conversion v = Inr p"
  shows "p = spec_price_digits (py_str v)"
  using assms
  by (cases v) (simp_all add: spec_price_digits_def re_sub_non_digits_def split_dot_first_def)

lemma seller_prices_loop_all2:
  "seller_prices_loop w ids acc = Inr ps \<Longrightarrow>
   \<exists>new. ps = acc @ new
     \<and> list_all2 (\<lambda>r p. price_offer_id p = py_str (Kod r)
                        \<and> price p = PStr (spec_price_digits (py_str (Tsena r))))
          (filter (\<lambda>r. py_str (Kod r) \<in> set ids) w) new"
proof (induction w arbitrary: acc)
  case Nil
  then show ?case by simp
next
  case (Cons r w)
  show ?case
  proof (cases "py_str (Kod r) \<in> set ids")
    case False
    with Cons.prems have "seller_prices_loop w ids acc = Inr ps" by simp
    from Cons.IH [OF this] False show ?thesis by simp
  next
    case True
    show ?thesis
    proof (cases "price_conversion (Tsena r)")
      case (Inl e)
      with True Cons.prems show ?thesis by simp
    next
      case (Inr p)
      let ?x = "\<lparr>auto_action_enabled = ''UNKNOWN'', currency_code = ''RUB'',
                 price_offer_id = py_str (Kod r), old_price = ''0'', price = PStr p\<rparr>"
      from True Inr Cons.prems have "seller_prices_loop w ids (acc @ [?x]) = Inr ps" by simp
      from Cons.IH [OF this] obtain new where ps: "ps = (acc @ [?x]) @ new"
        and all: "list_all2 (\<lambda>r p. price_offer_id p = py_str (Kod r)
                        \<and> price p = PStr (spec_price_digits (py_str (Tsena r))))
          (filter (\<lambda>r. py_str (Kod r) \<in> set ids) w) new" by blast
      from price_conversion_Inr [OF Inr] have "price ?x = PStr (spec_price_digits (py_str (Tsena r)))"
        by simp
      with all True have "list_all2 (\<lambda>r p. price_offer_id p = py_str (Kod r)
                        \<and> price p = PStr (spec_price_digits (py_str (Tsena r))))
          (filter (\<lambda>r. py_str (Kod r) \<in> set ids) (r # w)) (?x # new)" by simp
      moreover from ps have "ps = acc @ (?x # new)" by simp
      ultimately show ?thesis by blast
    qed
  qed
qed

lemma market_prices_loop_all2:
  "market_prices_loop w ids acc = Inr ps \<Longrightarrow>
   \<exists>new. ps = acc @ new
     \<and> list_all2 (\<lambda>r p. price_id p = py_str (Kod r)
                        \<and> py_int_str (spec_price_digits (py_str (Tsena r)))
                            = Inr (price_value (price_body p)))
          (filter (\<lambda>r. py_str (Kod r) \<in> set ids) w) new"
proof (induction w arbitrary: acc)
  case Nil
  then show ?case by simp
next
  case (Cons r w)
  show ?case
  proof (cases "py_str (Kod r) \<in> set ids")
    case False
    with Cons.prems have "market_prices_loop w ids acc = Inr ps" by simp
    from Cons.IH [OF this] False show ?thesis by simp
  next
    case True
    show ?thesis
    proof (cases "price_conversion (Tsena r)")
      case (Inl e)
      with True Cons.prems show ?thesis by simp
    next
      case (Inr p)
      note pc = this
      show ?thesis
      proof (cases "py_int (PStr p)")
        case (Inl e)
        with True pc Cons.prems show ?thesis by simp
      next
        case (Inr v)
        let ?x = "\<lparr>price_id = py_str (Kod r),
                    price_body = \<lparr>price_value = v, currencyId = ''RUR''\<rparr>\<rparr>"
        from True pc Inr Cons.prems have "market_prices_loop w ids (acc @ [?x]) = Inr ps" by simp
        from Cons.IH [OF this] obtain new where ps: "ps = (acc @ [?x]) @ new"
          and all: "list_all2 (\<lambda>r p. price_id p = py_str (Kod r)
                        \<and> py_int_str (spec_price_digits (py_str (Tsena r)))
                            = Inr (price_value (price_body p)))
            (filter (\<lambda>r. py_str (Kod r) \<in> set ids) w) new" by blast
        from price_conversion_Inr [OF pc] Inr
        have "py_int_str (spec_price_digits (py_str (Tsena r))) = Inr (price_value (price_body ?x))"
          by simp
        with all True have "list_all2 (\<lambda>r p. price_id p = py_str (Kod r)
                        \<and> py_int_str (spec_price_digits (py_str (Tsena r)))
                            = Inr (price_value (price_body p)))
            (filter (\<lambda>r. py_str (Kod r) \<in> set ids) (r # w)) (?x # new)" by simp
        moreover from ps have "ps = acc @ (?x # new)" by simp
        ultimately show ?thesis by blast
      qed
    qed
  qed
qed

text \<open>
  Claim C3, as amended. When \<^verbatim>\<open>create_prices\<close> returns, it has emitted one price record
  for every supplier record whose code is a known offer id, in order. In the Yandex Market
  script the price value is the integer parsed from the digits-only prefix of the price
  string before any decimal point. In the Ozon script the price field is that digits-only
  prefix itself, a string.
\<close>

theorem create_prices_digits_before_point:
  "(seller_create_prices w offer_ids = Inr prices \<longrightarrow>
      list_all2 (\<lambda>r p. price_offer_id p = py_str (Kod r)
                       \<and> price p = PStr (spec_price_digits (py_str (Tsena r))))
        (filter (\<lambda>r. py_str (Kod r) \<in> set offer_ids) w) prices)
   \<and> (market_create_prices w offer_ids = Inr mprices \<longrightarrow>
      list_all2 (\<lambda>r p. price_id p = py_str (Kod r)
                       \<and> py_int_str (spec_price_digits (py_str (Tsena r)))
                           = Inr (price_value (price_body p)))
        (filter (\<lambda>r. py_str (Kod r) \<in> set offer_ids) w) mprices)"
proof (intro conjI impI)
  assume "seller_create_prices w offer_ids = Inr prices"
  then have "seller_prices_loop w offer_ids [] = Inr prices"
    by (simp add: seller_create_prices_def)
  from seller_prices_loop_all2 [OF this]
  show "list_all2 (\<lambda>r p. price_offer_id p = py_str (Kod r)
                       \<and> price p = PStr (spec_price_digits (py_str (Tsena r))))
        (filter (\<lambda>r. py_str (Kod r) \<in> set offer_ids) w) prices" by simp
next
  assume "market_create_prices w offer_ids = Inr mprices"
  then have "market_prices_loop w offer_ids [] = Inr mprices"
    by (simp add: market_create_prices_def)
  from market_prices_loop_all2 [OF this]
  show "list_all2 (\<lambda>r p. price_id p = py_str (Kod r)
                       \<and> py_int_str (spec_price_digits (py_str (Tsena r)))
                           = Inr (price_value (price_body p)))
        (filter (\<lambda>r. py_str (Kod r) \<in> set offer_ids) w) mprices" by simp
qed

theorem create_prices_digits_before_point_witness:
  "seller_create_prices
      [\<lparr>Kod = PStr ''A1'', Kolichestvo = PStr ''>10'', Tsena = PStr ''5'990.00''\<rparr>] [''A1'', ''B2'']
     = Inr [\<lparr>auto_action_enabled = ''UNKNOWN'', currency_code = ''RUB'',
             price_offer_id = ''A1'', old_price = ''0'', price = PStr ''5990''\<rparr>]
   \<and> list_all2 (\<lambda>r p. price_offer_id p = py_str (Kod r)
                       \<and> price p = PStr (spec_price_digits (py_str (Tsena r))))
        (filter (\<lambda>r. py_str (Kod r) \<in> set [''A1'', ''B2''])
           [\<lparr>Kod = PStr ''A1'', Kolichestvo = PStr ''>10'', Tsena = PStr ''5'990.00''\<rparr>])
        [\<lparr>auto_action_enabled = ''UNKNOWN'', currency_code = ''RUB'',
             price_offer_id = ''A1'', old_price = ''0'', price = PStr ''5990''\<rparr>]
   \<and> market_create_prices
      [\<lparr>Kod = PStr ''A1'', Kolichestvo = PStr ''>10'', Tsena = PStr ''5'990.00''\<rparr>] [''A1'', ''B2'']
     = Inr [\<lparr>price_id = ''A1'', price_body = \<lparr>price_value = 5990, currencyId = ''RUR''\<rparr>\<rparr>]
   \<and> list_all2 (\<lambda>r p. price_id p = py_str (Kod r)
                       \<and> py_int_str (spec_price_digits (py_str (Tsena r)))
                           = Inr (price_value (price_body p)))
        (filter (\<lambda>r. py_str (Kod r) \<in> set [''A1'', ''B2''])
           [\<lparr>Kod = PStr ''A1'', Kolichestvo = PStr ''>10'', Tsena = PStr ''5'990.00''\<rparr>])
        [\<lparr>price_id = ''A1'', price_body = \<lparr>price_value = 5990, currencyId = ''RUR''\<rparr>\<rparr>]"
proof -
  let ?w = "[\<lparr>Kod = PStr ''A1'', Kolichestvo = PStr ''>10'', Tsena = PStr ''5'990.00''\<rparr>]"
  let ?ids = "[''A1'', ''B2'']"
  let ?ps = "[\<lparr>auto_action_enabled = ''UNKNOWN'', currency_code = ''RUB'',
             price_offer_id = ''A1'', old_price = ''0'', price = PStr ''5990''\<rparr>]"
  let ?ms = "[\<lparr>price_id = ''A1'', price_body = \<lparr>price_value = 5990, currencyId = ''RUR''\<rparr>\<rparr>]"
  have digits: "re_sub_non_digits (split_dot_first ''5'990.00'') = ''5990''"
    by (simp add: re_sub_non_digits_def split_dot_first_def is_digit_def)
  have parse: "py_int_str ''5990'' = Inr 5990"
    by (simp add: py_int_str_def strip_def is_space_def int_of_digits_def is_digit_def
        dec_value_def digit_value_def)
  have s: "seller_create_prices ?w ?ids = Inr ?ps"
    by (simp add: seller_create_prices_def digits)
  have m: "market_create_prices ?w ?ids = Inr ?ms"
    by (simp add: market_create_prices_def digits parse)
  note t = create_prices_digits_before_point [of ?w ?ids ?ps ?ms]
  from t [THEN conjunct1, THEN mp, OF s]
  have a: "list_all2 (\<lambda>r p. price_offer_id p = py_str (Kod r)
                       \<and> price p = PStr (spec_price_digits (py_str (Tsena r))))
        (filter (\<lambda>r. py_str (Kod r) \<in> set ?ids) ?w) ?ps" .
  from t [THEN conjunct2, THEN mp, OF m]
  have b: "list_all2 (\<lambda>r p. price_id p = py_str (Kod r)
                       \<and> py_int_str (spec_price_digits (py_str (Tsena r)))
                           = Inr (price_value (price_body p)))
        (filter (\<lambda>r. py_str (Kod r) \<in> set ?ids) ?w) ?ms" .
  show ?thesis by (rule conjI [OF s conjI [OF a conjI [OF m b]]])
qed

text \<open>
  The claim as it was stated, an integer price for each marketplace, fails for Ozon: the
  price field of its record is the string of digits.
\<close>

theorem seller_price_is_a_string_counterexample:
  "seller_create_prices
      [\<lparr>Kod = PStr ''A1'', Kolichestvo = PStr ''>10'', Tsena = PStr ''5'990.00''\<rparr>] [''A1'']
     = Inr [\<lparr>auto_action_enabled = ''UNKNOWN'', currency_code = ''RUB'',
             price_offer_id = ''A1'', old_price = ''0'', price = PStr ''5990''\<rparr>]
   \<and> PStr ''5990'' \<noteq> PInt 5990"
  by (simp add: seller_create_prices_def re_sub_non_digits_def split_dot_first_def is_digit_def)

section \<open>create_prices after create_stocks\<close>

lemma seller_prices_loop_none:
  "\<forall>r \<in> set w. py_str (Kod r) \<notin> set ids \<Longrightarrow> seller_prices_loop w ids acc = Inr acc"
  by (induction w) simp_all

lemma seller_create_stocks_then_prices:
  assumes "distinct ids" and "seller_create_stocks w ids = Inr (stocks, rest)"
  shows "(\<forall>r \<in> set w. py_str (Kod r) \<notin> set rest) \<and> seller_create_prices w rest = Inr []"
proof -
  from seller_create_stocks_rest [OF assms]
  have "rest = filter (\<lambda>i. i \<notin> (\<lambda>r. py_str (Kod r)) ` set w) ids" .
  then have none: "\<forall>r \<in> set w. py_str (Kod r) \<notin> set rest" by auto
  then have "seller_prices_loop w rest [] = Inr []" by (rule seller_prices_loop_none)
  with none show ?thesis by (simp add: seller_create_prices_def)
qed

section \<open>Claim C8: get_offer_ids\<close>

lemma ozon_serves_append:
  "ozon_serves w k cur (ps @ qs) =
     (ozon_serves w k cur ps
      \<and> ozon_serves w (k + length ps) (last (cur # map result_last_id ps)) qs)"
  by (induction ps arbitrary: k cur) simp_all

lemma market_serves_append:
  "market_serves w c k cur (ps @ qs) =
     (market_serves w c k cur ps
      \<and> market_serves w c (k + length ps) (last (cur # map next_page_token ps)) qs)"
  by (induction ps arbitrary: k cur) simp_all

lemma seller_product_pages_skip:
  "ozon_serves w k cur ps \<Longrightarrow>
   (\<forall>j<length ps. result_total (ps ! j)
        \<noteq> int (length acc + length (concat (map result_items (take (Suc j) ps))))) \<Longrightarrow>
   seller_product_pages w k cur acc =
     seller_product_pages w (k + length ps) (last (cur # map result_last_id ps))
       (acc @ concat (map result_items ps))"
proof (induction ps arbitrary: k cur acc)
  case Nil
  show ?case by simp
next
  case (Cons p ps)
  from Cons.prems(1) have resp: "ozon_product_list w k cur = Inr p"
    and serves: "ozon_serves w (Suc k) (result_last_id p) ps" by simp_all
  from Cons.prems(2) have "result_total ((p # ps) ! 0)
      \<noteq> int (length acc + length (concat (map result_items (take (Suc 0) (p # ps)))))"
    by blast
  then have no: "result_total p \<noteq> int (length (acc @ result_items p))" by simp
  have step: "seller_product_pages w k cur acc =
      seller_product_pages w (Suc k) (result_last_id p) (acc @ result_items p)"
    using resp no by (subst seller_product_pages.simps) simp
  have later: "\<forall>j<length ps. result_total (ps ! j)
      \<noteq> int (length (acc @ result_items p) + length (concat (map result_items (take (Suc j) ps))))"
  proof (intro allI impI)
    fix j assume "j < length ps"
    then have "Suc j < length (p # ps)" by simp
    with Cons.prems(2) have "result_total ((p # ps) ! Suc j)
      \<noteq> int (length acc + length (concat (map result_items (take (Suc (Suc j)) (p # ps)))))"
      by blast
    then show "result_total (ps ! j)
      \<noteq> int (length (acc @ result_items p) + length (concat (map result_items (take (Suc j) ps))))"
      by (simp add: add.assoc)
  qed
  from Cons.IH [OF serves later] step show ?case by simp
qed

lemma market_product_pages_skip:
  "market_serves w c k cur ps \<Longrightarrow> (\<forall>q \<in> set ps. \<not> market_end_signal q) \<Longrightarrow>
   market_product_pages w c k cur acc =
     market_product_pages w c (k + length ps) (last (cur # map next_page_token ps))
       (acc @ concat (map offerMappingEntries ps))"
proof (induction ps arbitrary: k cur acc)
  case Nil
  show ?case by simp
next
  case (Cons p ps)
  from Cons.prems(1) have resp: "market_offer_mapping_entries w c k cur = Inr p"
    and serves: "market_serves w c (Suc k) (next_page_token p) ps" by simp_all
  from Cons.prems(2) have "next_page_token p \<noteq> []" by (simp add: market_end_signal_def)
  then obtain t where t: "nextPageToken p = Some t" "t \<noteq> []" "next_page_token p = t"
    by (cases "nextPageToken p") (simp_all add: next_page_token_def)
  have step: "market_product_pages w c k cur acc =
      market_product_pages w c (Suc k) (next_page_token p) (acc @ offerMappingEntries p)"
    using resp t by (subst market_product_pages.simps) simp
  from Cons.prems(2) have "\<forall>q \<in> set ps. \<not> market_end_signal q" by simp
  from Cons.IH [OF serves this] step show ?case by simp
qed

lemma ozon_end_signal_prefix:
  "j < length ps \<Longrightarrow> ozon_end_signal (ps @ qs) j = ozon_end_signal ps j"
  by (simp add: ozon_end_signal_def nth_append)

lemma seller_get_offer_ids_ends:
  assumes serves: "ozon_serves w 0 [] (ps @ [p])"
    and no: "\<forall>j<length ps. \<not> ozon_end_signal (ps @ [p]) j"
    and fin: "ozon_end_signal (ps @ [p]) (length ps)"
  shows "seller_get_offer_ids w
     = Some (Inr (map item_offer_id (concat (map result_items (ps @ [p])))))"
proof -
  let ?cur = "last ([] # map result_last_id ps)"
  from serves have s1: "ozon_serves w 0 [] ps"
    and resp: "ozon_product_list w (length ps) ?cur = Inr p"
    by (simp_all add: ozon_serves_append)
  have no': "\<forall>j<length ps. result_total (ps ! j)
        \<noteq> int (length ([]::ozon_item list) + length (concat (map result_items (take (Suc j) ps))))"
  proof (intro allI impI)
    fix j assume j: "j < length ps"
    with no have "\<not> ozon_end_signal (ps @ [p]) j" by blast
    with j have "\<not> ozon_end_signal ps j" by (simp add: ozon_end_signal_prefix)
    then show "result_total (ps ! j)
        \<noteq> int (length ([]::ozon_item list) + length (concat (map result_items (take (Suc j) ps))))"
      by (simp add: ozon_end_signal_def)
  qed
  from fin have tot: "result_total p
      = int (length (concat (map result_items ps) @ result_items p))"
    by (simp add: ozon_end_signal_def)
  have "seller_product_pages w 0 [] [] =
      seller_product_pages w (length ps) ?cur (concat (map result_items ps))"
    using seller_product_pages_skip [OF s1 no'] by simp
  also have "\<dots> = Some (Inr (concat (map result_items ps) @ result_items p))"
    using resp tot by (subst seller_product_pages.simps) simp
  finally show ?thesis by (simp add: seller_get_offer_ids_def)
qed

lemma seller_get_offer_ids_raises:
  assumes serves: "ozon_serves w 0 [] ps"
    and no: "\<forall>j<length ps. \<not> ozon_end_signal ps j"
    and err: "ozon_product_list w (length ps) (last ([] # map result_last_id ps)) = Inl e"
  shows "seller_get_offer_ids w = Some (Inl e)"
proof -
  let ?cur = "last ([] # map result_last_id ps)"
  have no': "\<forall>j<length ps. result_total (ps ! j)
        \<noteq> int (length ([]::ozon_item list) + length (concat (map result_items (take (Suc j) ps))))"
    using no by (simp add: ozon_end_signal_def)
  have "seller_product_pages w 0 [] [] =
      seller_product_pages w (length ps) ?cur (concat (map result_items ps))"
    using seller_product_pages_skip [OF serves no'] by simp
  also have "\<dots> = Some (Inl e)"
    using err by (subst seller_product_pages.simps) simp
  finally show ?thesis by (simp add: seller_get_offer_ids_def)
qed

lemma market_get_offer_ids_ends:
  assumes serves: "market_serves w c 0 [] (ms @ [m])"
    and no: "\<forall>q \<in> set ms. \<not> market_end_signal q"
    and fin: "market_end_signal m"
  shows "market_get_offer_ids w c
     = Some (Inr (map shopSku (concat (map offerMappingEntries (ms @ [m])))))"
proof -
  let ?cur = "last ([] # map next_page_token ms)"
  from serves have s1: "market_serves w c 0 [] ms"
    and resp: "market_offer_mapping_entries w c (length ms) ?cur = Inr m"
    by (simp_all add: market_serves_append)
  have "market_product_pages w c 0 [] [] =
      market_product_pages w c (length ms) ?cur (concat (map offerMappingEntries ms))"
    using market_product_pages_skip [OF s1 no] by simp
  also have "\<dots> = Some (Inr (concat (map offerMappingEntries ms) @ offerMappingEntries m))"
    using resp fin
    by (subst market_product_pages.simps)
       (simp add: market_end_signal_def next_page_token_def split: option.splits)
  finally show ?thesis by (simp add: market_get_offer_ids_def)
qed

lemma market_get_offer_ids_raises:
  assumes serves: "market_serves w c 0 [] ms"
    and no: "\<forall>q \<in> set ms. \<not> market_end_signal q"
    and err: "market_offer_mapping_entries w c (length ms) (last ([] # map next_page_token ms))
                = Inl e"
  shows "market_get_offer_ids w c = Some (Inl e)"
proof -
  let ?cur = "last ([] # map next_page_token ms)"
  have "market_product_pages w c 0 [] [] =
      market_product_pages w c (length ms) ?cur (concat (map offerMappingEntries ms))"
    using market_product_pages_skip [OF serves no] by simp
  also have "\<dots> = Some (Inl e)"
    using err by (subst market_product_pages.simps) simp
  finally show ?thesis by (simp add: market_get_offer_ids_def)
qed

text \<open>
  Claim C8. When the server answers the successive page requests and the last answer, and
  none before it, signals the end of the list (for Ozon: the total equals the number of
  items collected; for Yandex Market: the next page token is missing or empty), then
  \<^verbatim>\<open>get_offer_ids\<close> returns, and returns the offer ids of all pages in order. When a page
  request raises before any end signal, \<^verbatim>\<open>get_offer_ids\<close> ends with that exception: it
  reaches the caller.
\<close>

theorem get_offer_ids_terminates:
  "(ozon_serves w 0 [] (ps @ [p])
      \<and> (\<forall>j<length ps. \<not> ozon_end_signal (ps @ [p]) j)
      \<and> ozon_end_signal (ps @ [p]) (length ps)
    \<longrightarrow> seller_get_offer_ids w
          = Some (Inr (map item_offer_id (concat (map result_items (ps @ [p]))))))
   \<and> (ozon_serves w 0 [] ps
      \<and> (\<forall>j<length ps. \<not> ozon_end_signal ps j)
      \<and> ozon_product_list w (length ps) (last ([] # map result_last_id ps)) = Inl e
    \<longrightarrow> seller_get_offer_ids w = Some (Inl e))
   \<and> (market_serves w c 0 [] (ms @ [m])
      \<and> (\<forall>q \<in> set ms. \<not> market_end_signal q)
      \<and> market_end_signal m
    \<longrightarrow> market_get_offer_ids w c
          = Some (Inr (map shopSku (concat (map offerMappingEntries (ms @ [m]))))))
   \<and> (market_serves w c 0 [] ms
      \<and> (\<forall>q \<in> set ms. \<not> market_end_signal q)
      \<and> market_offer_mapping_entries w c (length ms) (last ([] # map next_page_token ms)) = Inl e'
    \<longrightarrow> market_get_offer_ids w c = Some (Inl e'))"
  using seller_get_offer_ids_ends [of w ps p] seller_get_offer_ids_raises [of w ps e]
    market_get_offer_ids_ends [of w c ms m] market_get_offer_ids_raises [of w c ms e']
  by blast

lemma example_seller_offer_ids:
  "seller_get_offer_ids example_world = Some (Inr [''A1'', ''B2''])"
proof -
  let ?p1 = "\<lparr>result_items = [\<lparr>item_offer_id = ''A1''\<rparr>], result_total = 2, result_last_id = ''x''\<rparr>"
  let ?p2 = "\<lparr>result_items = [\<lparr>item_offer_id = ''B2''\<rparr>], result_total = 2, result_last_id = ''y''\<rparr>"
  have s: "ozon_serves example_world 0 [] ([?p1] @ [?p2])"
    by (simp add: example_world_def)
  have n: "\<forall>j<length [?p1]. \<not> ozon_end_signal ([?p1] @ [?p2]) j"
    by (simp add: ozon_end_signal_def)
  have f: "ozon_end_signal ([?p1] @ [?p2]) (length [?p1])"
    by (simp add: ozon_end_signal_def)
  from seller_get_offer_ids_ends [OF s n f] show ?thesis by simp
qed

lemma example_market_offer_ids:
  "market_get_offer_ids example_world c = Some (Inr [''A1'', ''B2''])"
proof -
  let ?m1 = "\<lparr>offerMappingEntries = [\<lparr>shopSku = ''A1''\<rparr>], nextPageToken = Some ''t''\<rparr>"
  let ?m2 = "\<lparr>offerMappingEntries = [\<lparr>shopSku = ''B2''\<rparr>], nextPageToken = None\<rparr>"
  have s: "market_serves example_world c 0 [] ([?m1] @ [?m2])"
    by (simp add: example_world_def next_page_token_def)
  have n: "\<forall>q \<in> set [?m1]. \<not> market_end_signal q"
    by (simp add: market_end_signal_def next_page_token_def)
  have f: "market_end_signal ?m2"
    by (simp add: market_end_signal_def next_page_token_def)
  from market_get_offer_ids_ends [OF s n f] show ?thesis by simp
qed

theorem get_offer_ids_terminates_witness:
  "ozon_serves example_world 0 []
      ([\<lparr>result_items = [\<lparr>item_offer_id = ''A1''\<rparr>], result_total = 2, result_last_id = ''x''\<rparr>]
        @ [\<lparr>result_items = [\<lparr>item_offer_id = ''B2''\<rparr>], result_total = 2, result_last_id = ''y''\<rparr>])
   \<and> \<not> ozon_end_signal
      ([\<lparr>result_items = [\<lparr>item_offer_id = ''A1''\<rparr>], result_total = 2, result_last_id = ''x''\<rparr>]
        @ [\<lparr>result_items = [\<lparr>item_offer_id = ''B2''\<rparr>], result_total = 2, result_last_id = ''y''\<rparr>]) 0
   \<and> ozon_end_signal
      ([\<lparr>result_items = [\<lparr>item_offer_id = ''A1''\<rparr>], result_total = 2, result_last_id = ''x''\<rparr>]
        @ [\<lparr>result_items = [\<lparr>item_offer_id = ''B2''\<rparr>], result_total = 2, result_last_id = ''y''\<rparr>]) 1
   \<and> seller_get_offer_ids example_world = Some (Inr [''A1'', ''B2''])
   \<and> market_serves example_world ''FBS'' 0 []
      ([\<lparr>offerMappingEntries = [\<lparr>shopSku = ''A1''\<rparr>], nextPageToken = Some ''t''\<rparr>]
        @ [\<lparr>offerMappingEntries = [\<lparr>shopSku = ''B2''\<rparr>], nextPageToken = None\<rparr>])
   \<and> \<not> market_end_signal \<lparr>offerMappingEntries = [\<lparr>shopSku = ''A1''\<rparr>], nextPageToken = Some ''t''\<rparr>
   \<and> market_end_signal \<lparr>offerMappingEntries = [\<lparr>shopSku = ''B2''\<rparr>], nextPageToken = None\<rparr>
   \<and> market_get_offer_ids example_world ''FBS'' = Some (Inr [''A1'', ''B2''])
   \<and> ozon_product_list listing_down_world 0 [] = Inl ReadTimeout
   \<and> seller_get_offer_ids listing_down_world = Some (Inl ReadTimeout)
   \<and> market_offer_mapping_entries listing_down_world ''FBS'' 0 [] = Inl ReadTimeout
   \<and> market_get_offer_ids listing_down_world ''FBS'' = Some (Inl ReadTimeout)"
proof -
  let ?p1 = "\<lparr>result_items = [\<lparr>item_offer_id = ''A1''\<rparr>], result_total = 2, result_last_id = ''x''\<rparr>"
  let ?p2 = "\<lparr>result_items = [\<lparr>item_offer_id = ''B2''\<rparr>], result_total = 2, result_last_id = ''y''\<rparr>"
  let ?m1 = "\<lparr>offerMappingEntries = [\<lparr>shopSku = ''A1''\<rparr>], nextPageToken = Some ''t''\<rparr>"
  let ?m2 = "\<lparr>offerMappingEntries = [\<lparr>shopSku = ''B2''\<rparr>], nextPageToken = None\<rparr>"
  have s: "ozon_serves example_world 0 [] ([?p1] @ [?p2])"
    by (simp add: example_world_def)
  have n0: "\<not> ozon_end_signal ([?p1] @ [?p2]) 0"
    by (simp add: ozon_end_signal_def)
  then have n: "\<forall>j<length [?p1]. \<not> ozon_end_signal ([?p1] @ [?p2]) j" by simp
  have f1: "ozon_end_signal ([?p1] @ [?p2]) 1"
    by (simp add: ozon_end_signal_def)
  then have f: "ozon_end_signal ([?p1] @ [?p2]) (length [?p1])" by simp
  have ms: "market_serves example_world ''FBS'' 0 [] ([?m1] @ [?m2])"
    by (simp add: example_world_def next_page_token_def)
  have mn1: "\<not> market_end_signal ?m1"
    by (simp add: market_end_signal_def next_page_token_def)
  then have mn: "\<forall>q \<in> set [?m1]. \<not> market_end_signal q" by simp
  have mf: "market_end_signal ?m2"
    by (simp add: market_end_signal_def next_page_token_def)
  have oe: "ozon_product_list listing_down_world 0 [] = Inl ReadTimeout"
    by (simp add: listing_down_world_def)
  have me: "market_offer_mapping_entries listing_down_world ''FBS'' 0 [] = Inl ReadTimeout"
    by (simp add: listing_down_world_def)
  note up = get_offer_ids_terminates [of example_world "[?p1]" ?p2 HTTPError "''FBS''" "[?m1]" ?m2 HTTPError]
  note down = get_offer_ids_terminates
    [of listing_down_world "[]" ?p2 ReadTimeout "''FBS''" "[]" ?m2 ReadTimeout]
  from up [THEN conjunct1, THEN mp, OF conjI [OF s conjI [OF n f]]]
  have r1: "seller_get_offer_ids example_world = Some (Inr [''A1'', ''B2''])" by simp
  from up [THEN conjunct2, THEN conjunct2, THEN conjunct1, THEN mp, OF conjI [OF ms conjI [OF mn mf]]]
  have r2: "market_get_offer_ids example_world ''FBS'' = Some (Inr [''A1'', ''B2''])" by simp
  from down [THEN conjunct2, THEN conjunct1] oe
  have r3: "seller_get_offer_ids listing_down_world = Some (Inl ReadTimeout)" by simp
  from down [THEN conjunct2, THEN conjunct2, THEN conjunct2] me
  have r4: "market_get_offer_ids listing_down_world ''FBS'' = Some (Inl ReadTimeout)" by simp
  show ?thesis
    by (intro conjI) (rule s n0 f1 r1 ms mn1 mf r2 oe r3 me r4)+
qed

section \<open>Runs of main\<close>

lemma io_events_return: "io_events P (io_return x)"
  by (simp add: io_events_def io_return_def)

lemma io_events_lift: "io_events P (io_lift r)"
  by (simp add: io_events_def io_lift_def)

lemma io_events_request: "P ev \<Longrightarrow> io_events P (io_request ev r)"
  by (simp add: io_events_def io_request_def)

lemma io_events_partial: "P ev \<Longrightarrow> io_events P (io_partial ev r)"
  by (cases r) (simp_all add: io_events_def io_partial_def)

lemma io_events_call_async: "io_events P (call_async body)"
  by (simp add: call_async_def io_events_return)

lemma io_events_bind:
  assumes "io_events P m" and "\<And>tr x. m = Some (tr, Inr x) \<Longrightarrow> io_events P (f x)"
  shows "io_events P (io_bind m f)"
proof (cases m)
  case None
  then show ?thesis by (simp add: io_bind_def io_events_def)
next
  case (Some a)
  obtain tr r where a: "a = (tr, r)" by (cases a)
  show ?thesis
  proof (cases r)
    case (Inl e)
    with Some a assms(1) show ?thesis by (simp add: io_bind_def io_events_def)
  next
    case (Inr x)
    with Some a have m: "m = Some (tr, Inr x)" by simp
    from assms(2) [OF m] have fx: "io_events P (f x)" .
    from assms(1) m have tr: "list_all P tr" by (simp add: io_events_def)
    show ?thesis
    proof (cases "f x")
      case None
      with m show ?thesis by (simp add: io_bind_def io_events_def)
    next
      case (Some b)
      obtain tr' r' where b: "b = (tr', r')" by (cases b)
      from fx Some b have "list_all P tr'" by (simp add: io_events_def)
      with tr m Some b show ?thesis by (simp add: io_bind_def io_events_def)
    qed
  qed
qed

lemma io_events_bind_all:
  "io_events P m \<Longrightarrow> (\<And>x. io_events P (f x)) \<Longrightarrow> io_events P (io_bind m f)"
  by (rule io_events_bind)

lemma io_events_for_each:
  "(\<And>x. io_events P (f x)) \<Longrightarrow> io_events P (for_each f xs)"
  by (induction xs) (simp_all add: io_events_return io_events_bind_all)

lemma io_events_try_except:
  assumes "io_events P body" and "\<And>c. P (Print c)"
  shows "io_events P (try_except body)"
proof (cases body)
  case None
  then show ?thesis by (simp add: try_except_def io_events_def)
next
  case (Some a)
  obtain tr r where a: "a = (tr, r)" by (cases a)
  with Some assms show ?thesis
    by (cases r) (simp_all add: try_except_def io_events_def)
qed

lemma io_events_case_prod:
  "(\<And>a b. io_events P (f a b)) \<Longrightarrow> io_events P (case x of (a, b) \<Rightarrow> f a b)"
  by (cases x) simp

lemma io_events_set:
  "io_events P m \<Longrightarrow> m = Some (tr, r) \<Longrightarrow> ev \<in> set tr \<Longrightarrow> P ev"
  by (simp add: io_events_def list_all_iff)

lemma try_except_returns: "try_except body = Some (tr, r) \<Longrightarrow> r = Inr ()"
proof -
  assume t: "try_except body = Some (tr, r)"
  show ?thesis
  proof (cases body)
    case None
    with t show ?thesis by (simp add: try_except_def)
  next
    case (Some a)
    obtain tr0 r0 where a: "a = (tr0, r0)" by (cases a)
    with Some t show ?thesis
      by (cases r0) (auto simp: try_except_def)
  qed
qed

lemma seller_main_returns: "seller_main w = Some (tr, r) \<Longrightarrow> r = Inr ()"
  unfolding seller_main_def by (rule try_except_returns)

lemma divide_empty: "0 < n \<Longrightarrow> divide [] n = Inr []"
  by (simp add: divide_def divide_from.simps [of "[]"])

lemma seller_prices_part:
  assumes "\<forall>r \<in> set wr. py_str (Kod r) \<notin> set rest"
  shows "io_bind (io_lift (seller_create_prices wr rest)) (\<lambda>prices.
         io_bind (io_lift (divide prices 900)) (\<lambda>chunks.
         for_each (seller_update_price w) chunks)) = Some ([], Inr ())"
proof -
  from assms have "seller_prices_loop wr rest [] = Inr []" by (rule seller_prices_loop_none)
  then have "seller_create_prices wr rest = Inr []" by (simp add: seller_create_prices_def)
  then show ?thesis
    by (simp add: io_bind_def io_lift_def divide_empty io_return_def)
qed

lemma seller_stocks_part:
  assumes d: "distinct ids" and P: "\<And>stocks. P (UpdateStocksOzon stocks)"
  shows "io_events P
     (io_bind (io_lift (seller_create_stocks wr ids)) (\<lambda>(stocks, offer_ids).
      io_bind (io_lift (divide stocks 100)) (\<lambda>chunks.
      io_bind (for_each (seller_update_stocks w) chunks) (\<lambda>_.
      io_bind (io_lift (seller_create_prices wr offer_ids)) (\<lambda>prices.
      io_bind (io_lift (divide prices 900)) (\<lambda>chunks.
      for_each (seller_update_price w) chunks))))))"
proof (rule io_events_bind)
  show "io_events P (io_lift (seller_create_stocks wr ids))" by (rule io_events_lift)
next
  fix tr x
  assume "io_lift (seller_create_stocks wr ids) = Some (tr, Inr x)"
  then have run: "seller_create_stocks wr ids = Inr x" by (simp add: io_lift_def)
  obtain stocks rest where x: "x = (stocks, rest)" by (cases x)
  from seller_create_stocks_then_prices [OF d run [unfolded x]]
  have none: "\<forall>r \<in> set wr. py_str (Kod r) \<notin> set rest" by blast
  have "io_events P
     (io_bind (io_lift (divide stocks 100)) (\<lambda>chunks.
      io_bind (for_each (seller_update_stocks w) chunks) (\<lambda>_.
      io_bind (io_lift (seller_create_prices wr rest)) (\<lambda>prices.
      io_bind (io_lift (divide prices 900)) (\<lambda>chunks.
      for_each (seller_update_price w) chunks)))))"
  proof (rule io_events_bind_all)
    show "io_events P (io_lift (divide stocks 100))" by (rule io_events_lift)
  next
    fix chunks :: "ozon_stock list list"
    show "io_events P
       (io_bind (for_each (seller_update_stocks w) chunks) (\<lambda>_.
        io_bind (io_lift (seller_create_prices wr rest)) (\<lambda>prices.
        io_bind (io_lift (divide prices 900)) (\<lambda>chunks.
        for_each (seller_update_price w) chunks))))"
    proof (rule io_events_bind_all)
      show "io_events P (for_each (seller_update_stocks w) chunks)"
        by (rule io_events_for_each) (simp add: seller_update_stocks_def io_events_request P)
    next
      fix u :: unit
      show "io_events P
         (io_bind (io_lift (seller_create_prices wr rest)) (\<lambda>prices.
          io_bind (io_lift (divide prices 900)) (\<lambda>chunks.
          for_each (seller_update_price w) chunks)))"
        unfolding seller_prices_part [OF none] by (simp add: io_events_def)
    qed
  qed
  then show "io_events P
     (case x of (stocks, offer_ids) \<Rightarrow>
      io_bind (io_lift (divide stocks 100)) (\<lambda>chunks.
      io_bind (for_each (seller_update_stocks w) chunks) (\<lambda>_.
      io_bind (io_lift (seller_create_prices wr offer_ids)) (\<lambda>prices.
      io_bind (io_lift (divide prices 900)) (\<lambda>chunks.
      for_each (seller_update_price w) chunks)))))"
    by (simp add: x)
qed

lemma seller_main_no_price_update:
  assumes ids: "seller_get_offer_ids w = Some (Inr ids)" and d: "distinct ids"
    and run: "seller_main w = Some (tr, r)"
  shows "UpdatePriceOzon prices \<notin> set tr"
proof -
  let ?P = "\<lambda>ev. \<forall>prices. ev \<noteq> UpdatePriceOzon prices"
  have "io_events ?P (seller_main w)"
    unfolding seller_main_def
  proof (rule io_events_try_except)
    show "\<And>c. ?P (Print c)" by simp
  next
    show "io_events ?P
       (io_bind (io_partial GetOfferIdsOzon (seller_get_offer_ids w)) (\<lambda>offer_ids.
        io_bind (download_stock w) (\<lambda>watch_remnants.
        io_bind (io_lift (seller_create_stocks watch_remnants offer_ids)) (\<lambda>(stocks, offer_ids).
        io_bind (io_lift (divide stocks 100)) (\<lambda>chunks.
        io_bind (for_each (seller_update_stocks w) chunks) (\<lambda>_.
        io_bind (io_lift (seller_create_prices watch_remnants offer_ids)) (\<lambda>prices.
        io_bind (io_lift (divide prices 900)) (\<lambda>chunks.
        for_each (seller_update_price w) chunks))))))))"
    proof (rule io_events_bind)
      show "io_events ?P (io_partial GetOfferIdsOzon (seller_get_offer_ids w))"
        by (rule io_events_partial) simp
    next
      fix tr0 x
      assume "io_partial GetOfferIdsOzon (seller_get_offer_ids w) = Some (tr0, Inr x)"
      with ids have x: "x = ids" by (simp add: io_partial_def)
      show "io_events ?P
         (io_bind (download_stock w) (\<lambda>watch_remnants.
          io_bind (io_lift (seller_create_stocks watch_remnants x)) (\<lambda>(stocks, offer_ids).
          io_bind (io_lift (divide stocks 100)) (\<lambda>chunks.
          io_bind (for_each (seller_update_stocks w) chunks) (\<lambda>_.
          io_bind (io_lift (seller_create_prices watch_remnants offer_ids)) (\<lambda>prices.
          io_bind (io_lift (divide prices 900)) (\<lambda>chunks.
          for_each (seller_update_price w) chunks)))))))"
        unfolding x
      proof (rule io_events_bind_all)
        show "io_events ?P (download_stock w)"
          by (simp add: download_stock_def io_events_request)
      next
        fix wr
        show "io_events ?P
          (io_bind (io_lift (seller_create_stocks wr ids)) (\<lambda>(stocks, offer_ids).
           io_bind (io_lift (divide stocks 100)) (\<lambda>chunks.
           io_bind (for_each (seller_update_stocks w) chunks) (\<lambda>_.
           io_bind (io_lift (seller_create_prices wr offer_ids)) (\<lambda>prices.
           io_bind (io_lift (divide prices 900)) (\<lambda>chunks.
           for_each (seller_update_price w) chunks))))))"
          by (rule seller_stocks_part [OF d]) simp
      qed
    qed
  qed
  from io_events_set [OF this run] show ?thesis by blast
qed

lemma market_main_no_price_update:
  assumes run: "market_main w env = Some (tr, r)"
  shows "UpdatePriceMarket c prices \<notin> set tr"
proof -
  let ?P = "\<lambda>ev. \<forall>c prices. ev \<noteq> UpdatePriceMarket c prices"
  have req: "\<And>c stocks. io_events ?P (market_update_stocks w c stocks)"
    by (simp add: market_update_stocks_def io_events_request)
  have dl: "io_events ?P (download_stock w)"
    by (simp add: download_stock_def io_events_request)
  have ids: "\<And>c. io_events ?P (io_partial (GetOfferIdsMarket c) (market_get_offer_ids w c))"
    by (rule io_events_partial) simp
  have "io_events ?P (market_main w env)"
    unfolding market_main_def
    by (intro io_events_bind_all io_events_try_except io_events_case_prod io_events_lift
        io_events_for_each io_events_call_async io_events_return req dl ids) simp
  from io_events_set [OF this run] show ?thesis by blast
qed

section \<open>Claim C10: seller.py sends no prices\<close>

text \<open>
  Claim C10, as amended. For a list of offer ids without duplicates: after
  \<^verbatim>\<open>create_stocks(w, ids)\<close> has returned, no record of \<open>w\<close> has a code that is still in
  the changed \<open>ids\<close>, so \<^verbatim>\<open>create_prices(w, ids)\<close> on that list returns the empty list.
  This is the composition that \<^verbatim>\<open>main\<close> of \<^verbatim>\<open>seller.py\<close> performs: when the marketplace
  lists its offer ids without duplicates, a run of \<^verbatim>\<open>main\<close> holds no price update.
\<close>

theorem seller_prices_after_stocks_empty:
  assumes "distinct offer_ids"
  shows "(seller_create_stocks w offer_ids = Inr (stocks, rest) \<longrightarrow>
            (\<forall>r \<in> set w. py_str (Kod r) \<notin> set rest) \<and> seller_create_prices w rest = Inr [])
       \<and> (seller_get_offer_ids world = Some (Inr offer_ids) \<and> seller_main world = Some (tr, res)
            \<longrightarrow> (\<forall>prices. UpdatePriceOzon prices \<notin> set tr))"
proof (intro conjI impI allI)
  assume run: "seller_create_stocks w offer_ids = Inr (stocks, rest)"
  from seller_create_stocks_then_prices [OF assms run]
  show "\<forall>r \<in> set w. py_str (Kod r) \<notin> set rest" and "seller_create_prices w rest = Inr []"
    by blast+
next
  fix prices
  assume "seller_get_offer_ids world = Some (Inr offer_ids) \<and> seller_main world = Some (tr, res)"
  then have ids: "seller_get_offer_ids world = Some (Inr offer_ids)"
    and run: "seller_main world = Some (tr, res)" by blast+
  from ids assms run show "UpdatePriceOzon prices \<notin> set tr"
    by (rule seller_main_no_price_update)
qed

lemma divide_one_chunk:
  "lst \<noteq> [] \<Longrightarrow> length lst \<le> n \<Longrightarrow> divide lst (int n) = Inr [lst]"
proof -
  assume ne: "lst \<noteq> []" and le: "length lst \<le> n"
  then have n: "0 < n" by (cases lst) simp_all
  have "divide_from lst n (0 + n) = []"
    using le by (simp add: divide_from.simps [of lst n n])
  then have "divide_from lst n 0 = [lst]"
    using ne le n by (simp add: divide_from.simps [of lst n 0])
  with n show ?thesis by (simp add: divide_def)
qed

lemma example_seller_main:
  "seller_main example_world =
     Some ([GetOfferIdsOzon, DownloadStock,
            UpdateStocksOzon [\<lparr>offer_id = ''A1'', stock = 100\<rparr>, \<lparr>offer_id = ''B2'', stock = 0\<rparr>]],
           Inr ())"
proof -
  let ?w = "[\<lparr>Kod = PStr ''A1'', Kolichestvo = PStr ''>10'', Tsena = PStr ''100.00''\<rparr>]"
  let ?st = "[\<lparr>offer_id = ''A1'', stock = 100\<rparr>, \<lparr>offer_id = ''B2'', stock = 0\<rparr>]"
  have o: "ostatki example_world = Inr ?w" by (simp add: example_world_def)
  have u: "\<And>s. ozon_import_stocks example_world s = Inr ()" by (simp add: example_world_def)
  have s: "seller_create_stocks ?w [''A1'', ''B2''] = Inr (?st, [''B2''])"
    by (simp add: seller_create_stocks_def stock_of_quantity_def)
  have p: "seller_create_prices ?w [''B2''] = Inr []"
    by (simp add: seller_create_prices_def)
  have d: "divide ?st 100 = Inr [?st]"
    using divide_one_chunk [of ?st 100] by simp
  show ?thesis
    by (simp add: seller_main_def example_seller_offer_ids io_partial_def download_stock_def
        io_request_def o s d p u seller_update_stocks_def io_bind_def io_lift_def io_return_def
        divide_empty try_except_def)
qed

theorem seller_prices_after_stocks_empty_witness:
  "distinct [''A1'', ''B2'']
   \<and> seller_create_stocks
        [\<lparr>Kod = PStr ''A1'', Kolichestvo = PStr ''>10'', Tsena = PStr ''100.00''\<rparr>] [''A1'', ''B2'']
      = Inr ([\<lparr>offer_id = ''A1'', stock = 100\<rparr>, \<lparr>offer_id = ''B2'', stock = 0\<rparr>], [''B2''])
   \<and> seller_create_prices
        [\<lparr>Kod = PStr ''A1'', Kolichestvo = PStr ''>10'', Tsena = PStr ''100.00''\<rparr>] [''B2'']
      = Inr []
   \<and> seller_get_offer_ids example_world = Some (Inr [''A1'', ''B2''])
   \<and> seller_main example_world =
       Some ([GetOfferIdsOzon, DownloadStock,
              UpdateStocksOzon [\<lparr>offer_id = ''A1'', stock = 100\<rparr>, \<lparr>offer_id = ''B2'', stock = 0\<rparr>]],
             Inr ())
   \<and> (\<forall>prices. UpdatePriceOzon prices
          \<notin> set [GetOfferIdsOzon, DownloadStock,
              UpdateStocksOzon [\<lparr>offer_id = ''A1'', stock = 100\<rparr>, \<lparr>offer_id = ''B2'', stock = 0\<rparr>]])"
proof -
  let ?w = "[\<lparr>Kod = PStr ''A1'', Kolichestvo = PStr ''>10'', Tsena = PStr ''100.00''\<rparr>]"
  let ?st = "[\<lparr>offer_id = ''A1'', stock = 100\<rparr>, \<lparr>offer_id = ''B2'', stock = 0\<rparr>]"
  let ?tr = "[GetOfferIdsOzon, DownloadStock, UpdateStocksOzon ?st]"
  have d: "distinct [''A1'', ''B2'']" by simp
  have s: "seller_create_stocks ?w [''A1'', ''B2''] = Inr (?st, [''B2''])"
    by (simp add: seller_create_stocks_def stock_of_quantity_def)
  note t = seller_prices_after_stocks_empty
    [OF d, of ?w ?st "[''B2'']" example_world ?tr "Inr ()"]
  from t [THEN conjunct1, THEN mp, OF s]
  have p: "seller_create_prices ?w [''B2''] = Inr []" by (rule conjunct2)
  from t [THEN conjunct2, THEN mp, OF conjI [OF example_seller_offer_ids example_seller_main]]
  have n: "\<forall>prices. UpdatePriceOzon prices \<notin> set ?tr" .
  show ?thesis
    by (intro conjI) (rule d s p example_seller_offer_ids example_seller_main n)+
qed

text \<open>
  With an offer id listed twice, one occurrence is left after \<^verbatim>\<open>create_stocks\<close>, and
  \<^verbatim>\<open>create_prices\<close> on the changed list is not empty.
\<close>

theorem seller_prices_after_stocks_counterexample:
  "seller_create_stocks
      [\<lparr>Kod = PStr ''A1'', Kolichestvo = PStr ''>10'', Tsena = PStr ''100.00''\<rparr>] [''A1'', ''A1'']
     = Inr ([\<lparr>offer_id = ''A1'', stock = 100\<rparr>, \<lparr>offer_id = ''A1'', stock = 0\<rparr>], [''A1''])
   \<and> seller_create_prices
      [\<lparr>Kod = PStr ''A1'', Kolichestvo = PStr ''>10'', Tsena = PStr ''100.00''\<rparr>] [''A1'']
     = Inr [\<lparr>auto_action_enabled = ''UNKNOWN'', currency_code = ''RUB'',
             price_offer_id = ''A1'', old_price = ''0'', price = PStr ''100''\<rparr>]"
  by (simp add: seller_create_stocks_def stock_of_quantity_def seller_create_prices_def
      re_sub_non_digits_def split_dot_first_def is_digit_def)

section \<open>Claims C6 and C7: main of market.py\<close>

text \<open>
  Claim C6 says that \<^verbatim>\<open>main\<close> lists the offer ids, transforms and uploads the stocks,
  transforms and uploads the prices, for each campaign, and issues at least one price
  update when the transformed price list is not empty. \<^verbatim>\<open>main\<close> of \<^verbatim>\<open>market.py\<close> does
  not: its calls of \<^verbatim>\<open>upload_prices\<close> build coroutines that are never awaited. In the
  example world the run of \<^verbatim>\<open>main\<close> ends normally with two stock updates and no price
  update, although \<^verbatim>\<open>create_prices\<close> on the same records and offer ids is not empty.
\<close>

theorem market_main_sends_no_prices:
  "market_main example_world example_env =
     Some ([DownloadStock,
            GetOfferIdsMarket ''FBS'',
            UpdateStocksMarket ''FBS''
              [market_stock_record ''W1'' ''2024-01-01T00:00:00Z'' ''A1'' 100,
               market_stock_record ''W1'' ''2024-01-01T00:00:00Z'' ''B2'' 0],
            GetOfferIdsMarket ''DBS'',
            UpdateStocksMarket ''DBS''
              [market_stock_record ''W2'' ''2024-01-01T00:00:01Z'' ''A1'' 100,
               market_stock_record ''W2'' ''2024-01-01T00:00:01Z'' ''B2'' 0]],
           Inr ())
   \<and> market_create_prices
        [\<lparr>Kod = PStr ''A1'', Kolichestvo = PStr ''>10'', Tsena = PStr ''100.00''\<rparr>] [''A1'', ''B2'']
      = Inr [\<lparr>price_id = ''A1'', price_body = \<lparr>price_value = 100, currencyId = ''RUR''\<rparr>\<rparr>]"
proof
  let ?w = "[\<lparr>Kod = PStr ''A1'', Kolichestvo = PStr ''>10'', Tsena = PStr ''100.00''\<rparr>]"
  let ?s1 = "[market_stock_record ''W1'' ''2024-01-01T00:00:00Z'' ''A1'' 100,
               market_stock_record ''W1'' ''2024-01-01T00:00:00Z'' ''B2'' 0]"
  let ?s2 = "[market_stock_record ''W2'' ''2024-01-01T00:00:01Z'' ''A1'' 100,
               market_stock_record ''W2'' ''2024-01-01T00:00:01Z'' ''B2'' 0]"
  have o: "ostatki example_world = Inr ?w" by (simp add: example_world_def)
  have u: "\<And>c s. market_put_stocks example_world c s = Inr ()" by (simp add: example_world_def)
  have s: "\<And>wh date. market_create_stocks ?w [''A1'', ''B2''] wh date
      = Inr ([market_stock_record wh date ''A1'' 100, market_stock_record wh date ''B2'' 0], [''B2''])"
    by (simp add: market_create_stocks_def stock_of_quantity_def)
  have d: "\<And>wh date. divide [market_stock_record wh date ''A1'' 100,
               market_stock_record wh date ''B2'' 0] 2000
      = Inr [[market_stock_record wh date ''A1'' 100, market_stock_record wh date ''B2'' 0]]"
    subgoal for wh date
      using divide_one_chunk [of "[market_stock_record wh date ''A1'' 100,
               market_stock_record wh date ''B2'' 0]" 2000] by simp
    done
  show "market_main example_world example_env =
     Some ([DownloadStock, GetOfferIdsMarket ''FBS'', UpdateStocksMarket ''FBS'' ?s1,
            GetOfferIdsMarket ''DBS'', UpdateStocksMarket ''DBS'' ?s2], Inr ())"
    by (simp add: market_main_def example_env_def example_market_offer_ids io_partial_def
        download_stock_def io_request_def o s d u market_update_stocks_def io_bind_def io_lift_def
        io_return_def call_async_def try_except_def)
  have parse: "py_int_str ''100'' = Inr 100"
    by (simp add: py_int_str_def strip_def is_space_def int_of_digits_def is_digit_def
        dec_value_def digit_value_def)
  show "market_create_prices ?w [''A1'', ''B2'']
      = Inr [\<lparr>price_id = ''A1'', price_body = \<lparr>price_value = 100, currencyId = ''RUR''\<rparr>\<rparr>]"
    by (simp add: market_create_prices_def re_sub_non_digits_def split_dot_first_def is_digit_def
        parse)
qed

lemma supplier_down_seller_offer_ids:
  "seller_get_offer_ids supplier_down_world = Some (Inr [''A1'', ''B2''])"
proof -
  let ?p1 = "\<lparr>result_items = [\<lparr>item_offer_id = ''A1''\<rparr>], result_total = 2, result_last_id = ''x''\<rparr>"
  let ?p2 = "\<lparr>result_items = [\<lparr>item_offer_id = ''B2''\<rparr>], result_total = 2, result_last_id = ''y''\<rparr>"
  have s: "ozon_serves supplier_down_world 0 [] ([?p1] @ [?p2])"
    by (simp add: supplier_down_world_def example_world_def)
  have n: "\<forall>j<length [?p1]. \<not> ozon_end_signal ([?p1] @ [?p2]) j"
    by (simp add: ozon_end_signal_def)
  have f: "ozon_end_signal ([?p1] @ [?p2]) (length [?p1])"
    by (simp add: ozon_end_signal_def)
  from seller_get_offer_ids_ends [OF s n f] show ?thesis by simp
qed

text \<open>
  Claim C7 says that every exception of the sequence, the supplier download included, is
  caught by the handler of \<^verbatim>\<open>main\<close>, printed and swallowed. In \<^verbatim>\<open>market.py\<close> the download
  stands before the \<^verbatim>\<open>try\<close> statement: when the supplier refuses the connection,
  \<^verbatim>\<open>main\<close> of \<^verbatim>\<open>market.py\<close> ends with that exception and prints nothing, while \<^verbatim>\<open>main\<close>
  of \<^verbatim>\<open>seller.py\<close> prints the message and returns.
\<close>

theorem market_main_download_not_caught:
  "market_main supplier_down_world example_env = Some ([DownloadStock], Inl ConnectionError)
   \<and> seller_main supplier_down_world =
       Some ([GetOfferIdsOzon, DownloadStock, Print (ConnectionMessage ConnectionError)], Inr ())"
proof
  have o: "ostatki supplier_down_world = Inl ConnectionError"
    by (simp add: supplier_down_world_def)
  show "market_main supplier_down_world example_env = Some ([DownloadStock], Inl ConnectionError)"
    by (simp add: market_main_def download_stock_def io_request_def o io_bind_def)
  show "seller_main supplier_down_world =
       Some ([GetOfferIdsOzon, DownloadStock, Print (ConnectionMessage ConnectionError)], Inr ())"
    by (simp add: seller_main_def supplier_down_seller_offer_ids io_partial_def download_stock_def
        io_request_def o io_bind_def try_except_def)
qed

end
